theory Spec2Isabelle
  imports Complex_Main "HOL-Library.AList" "HOL-Library.Log_Nat"
begin

section \<open>JavaScript values\<close>

text \<open>
  The validation helpers of FleetLink (\<^verbatim>\<open>utils/helpers.js\<close>) work on the primitive values
  a form state holds. A JavaScript Number is an IEEE binary64; a finite one is kept here by
  its exact rational value (the sign of zero is not kept: no operation below observes it),
  and every operation that produces a number rounds as binary64 does (\<open>round_double\<close>).
  Strings are lists of code units below 256. \<open>Obj s\<close> is an object, such as a function
  inherited from \<open>Object.prototype\<close>, with the conversions every object has by default:
  \<open>toString()\<close> gives \<open>s\<close>, and \<open>valueOf()\<close> the object itself.
\<close>

datatype jsnum = NaN | PInf | NInf | Fin rat

datatype jsval = Undefined | Null | Bool bool | Num jsnum | Str string | Obj string

datatype js_error = TypeError

subsection \<open>Rounding to binary64\<close>

definition pow2 :: "int \<Rightarrow> rat" where
  "pow2 e = (if 0 \<le> e then 2 ^ nat e else 1 / 2 ^ nat (- e))"

definition pow10 :: "int \<Rightarrow> rat" where
  "pow10 e = (if 0 \<le> e then 10 ^ nat e else 1 / 10 ^ nat (- e))"

text \<open>\<open>bin_exp a\<close> is the \<open>e\<close> with \<open>2^e \<le> a < 2^(e+1)\<close>, for \<open>a > 0\<close>.\<close>

definition bin_exp :: "rat \<Rightarrow> int" where
  "bin_exp a =
     (let (n, d) = quotient_of a; e0 = bitlen n - bitlen d
      in if pow2 e0 \<le> a then e0 else e0 - 1)"

text \<open>Round to the nearest integer, ties to the even one.\<close>

definition round_half_even :: "rat \<Rightarrow> int" where
  "round_half_even m =
     (let f = \<lfloor>m\<rfloor>; r = m - of_int f
      in if r < 1 / 2 then f
         else if 1 / 2 < r then f + 1
         else if even f then f else f + 1)"

text \<open>
  The binary64 nearest to a rational: 53 significant bits, exponents down to the subnormal
  step \<open>2^-1074\<close>, and infinity from \<open>2^1024\<close> on (after rounding).
\<close>

definition round_pos :: "rat \<Rightarrow> rat" where
  "round_pos a =
     (let p = max (bin_exp a - 52) (- 1074)
      in of_int (round_half_even (a / pow2 p)) * pow2 p)"

definition round_double :: "rat \<Rightarrow> jsnum" where
  "round_double q =
     (if q = 0 then Fin 0
      else if 0 < q then (let r = round_pos q in if pow2 1024 \<le> r then PInf else Fin r)
      else (let r = round_pos (- q) in if pow2 1024 \<le> r then NInf else Fin (- r)))"

subsection \<open>Arithmetic and comparison of Numbers\<close>

definition isNaN :: "jsnum \<Rightarrow> bool" where
  "isNaN x = (x = NaN)"

text \<open>\<open>x < y\<close> and \<open>x > y\<close> on Numbers: false as soon as one side is NaN.\<close>

fun num_lt :: "jsnum \<Rightarrow> jsnum \<Rightarrow> bool" where
  "num_lt NaN _ = False"
| "num_lt _ NaN = False"
| "num_lt _ NInf = False"
| "num_lt NInf _ = True"
| "num_lt PInf _ = False"
| "num_lt (Fin a) PInf = True"
| "num_lt (Fin a) (Fin b) = (a < b)"

definition num_gt :: "jsnum \<Rightarrow> jsnum \<Rightarrow> bool" where
  "num_gt x y = num_lt y x"

fun num_sub :: "jsnum \<Rightarrow> jsnum \<Rightarrow> jsnum" where
  "num_sub NaN _ = NaN"
| "num_sub _ NaN = NaN"
| "num_sub PInf PInf = NaN"
| "num_sub NInf NInf = NaN"
| "num_sub PInf _ = PInf"
| "num_sub NInf _ = NInf"
| "num_sub (Fin a) PInf = NInf"
| "num_sub (Fin a) NInf = PInf"
| "num_sub (Fin a) (Fin b) = round_double (a - b)"

fun Math_abs :: "jsnum \<Rightarrow> jsnum" where
  "Math_abs NaN = NaN"
| "Math_abs PInf = PInf"
| "Math_abs NInf = PInf"
| "Math_abs (Fin a) = Fin \<bar>a\<bar>"

text \<open>
  \<open>x % y\<close>: NaN when the dividend is infinite or the divisor is zero, the dividend when
  the divisor is infinite, and otherwise the exact remainder of the truncating division,
  with the sign of the dividend (a remainder of binary64 values is exact).
\<close>

fun num_rem :: "jsnum \<Rightarrow> jsnum \<Rightarrow> jsnum" where
  "num_rem NaN _ = NaN"
| "num_rem _ NaN = NaN"
| "num_rem PInf _ = NaN"
| "num_rem NInf _ = NaN"
| "num_rem (Fin a) PInf = Fin a"
| "num_rem (Fin a) NInf = Fin a"
| "num_rem (Fin a) (Fin b) =
     (if b = 0 then NaN
      else if 0 \<le> a then Fin (a - \<bar>b\<bar> * of_int \<lfloor>a / \<bar>b\<bar>\<rfloor>)
      else Fin (- (- a - \<bar>b\<bar> * of_int \<lfloor>- a / \<bar>b\<bar>\<rfloor>)))"

text \<open>\<open>Math.max(x, y)\<close>: NaN as soon as one argument is NaN.\<close>

definition Math_max :: "jsnum \<Rightarrow> jsnum \<Rightarrow> jsnum" where
  "Math_max x y = (if x = NaN \<or> y = NaN then NaN else if num_lt x y then y else x)"


section \<open>Strings and conversions\<close>

subsection \<open>Trimming\<close>

text \<open>
  \<open>String.prototype.trim\<close> removes white space and line terminators at both ends; among the
  code units below 256 these are TAB, LF, VT, FF, CR, SP and NBSP.
\<close>

definition is_ws :: "char \<Rightarrow> bool" where
  "is_ws c = (let n = (of_char c :: nat)
              in n = 9 \<or> n = 10 \<or> n = 11 \<or> n = 12 \<or> n = 13 \<or> n = 32 \<or> n = 160)"

definition trim_start :: "string \<Rightarrow> string" where
  "trim_start s = dropWhile is_ws s"

definition trim_js :: "string \<Rightarrow> string" where
  "trim_js s = rev (dropWhile is_ws (rev (dropWhile is_ws s)))"

subsection \<open>Digits\<close>

definition digit_of :: "char \<Rightarrow> nat option" where
  "digit_of c =
     (let n = (of_char c :: nat)
      in if 48 \<le> n \<and> n \<le> 57 then Some (n - 48)
         else if 97 \<le> n \<and> n \<le> 122 then Some (n - 87)
         else if 65 \<le> n \<and> n \<le> 90 then Some (n - 55)
         else None)"

definition radix_digit :: "nat \<Rightarrow> char \<Rightarrow> nat option" where
  "radix_digit r c =
     (case digit_of c of None \<Rightarrow> None | Some d \<Rightarrow> if d < r then Some d else None)"

definition is_digit :: "nat \<Rightarrow> char \<Rightarrow> bool" where
  "is_digit r c = (radix_digit r c \<noteq> None)"

text \<open>The mathematical value of a string of radix-\<open>r\<close> digits.\<close>

definition digits_value :: "nat \<Rightarrow> string \<Rightarrow> int" where
  "digits_value r s =
     foldl (\<lambda>a c. case radix_digit r c of None \<Rightarrow> a | Some d \<Rightarrow> a * int r + int d) 0 s"

fun dec_digits :: "nat \<Rightarrow> string" where
  "dec_digits n =
     (if n < 10 then [char_of (48 + n)]
      else dec_digits (n div 10) @ [char_of (48 + n mod 10)])"

subsection \<open>Strings to Numbers\<close>

text \<open>
  \<open>Number(s)\<close> on a string follows the grammar \<open>StringNumericLiteral\<close> of ECMA-262: white
  space around, then nothing (the value 0), a binary, octal or hexadecimal integer with its
  prefix, or a signed decimal literal with optional fraction and exponent, or
  \<open>Infinity\<close>. Anything else is NaN.
\<close>

definition signed_integer :: "string \<Rightarrow> int option" where
  "signed_integer t =
     (case t of
        [] \<Rightarrow> None
      | c # d \<Rightarrow>
          if c = CHR ''+'' then (if d \<noteq> [] \<and> list_all (is_digit 10) d
                                 then Some (digits_value 10 d) else None)
          else if c = CHR ''-'' then (if d \<noteq> [] \<and> list_all (is_digit 10) d
                                 then Some (- digits_value 10 d) else None)
          else if list_all (is_digit 10) t then Some (digits_value 10 t) else None)"

definition exponent_part :: "string \<Rightarrow> int option" where
  "exponent_part r =
     (case r of
        [] \<Rightarrow> Some 0
      | c # t \<Rightarrow> if c = CHR ''e'' \<or> c = CHR ''E'' then signed_integer t else None)"

definition decimal_literal :: "string \<Rightarrow> rat option" where
  "decimal_literal s =
     (let ip = takeWhile (is_digit 10) s;
          r1 = dropWhile (is_digit 10) s;
          fp = (case r1 of [] \<Rightarrow> [] | c # t \<Rightarrow>
                  if c = CHR ''.'' then takeWhile (is_digit 10) t else []);
          r2 = (case r1 of [] \<Rightarrow> [] | c # t \<Rightarrow>
                  if c = CHR ''.'' then dropWhile (is_digit 10) t else r1)
      in if ip = [] \<and> fp = [] then None
         else (case exponent_part r2 of
                 None \<Rightarrow> None
               | Some ex \<Rightarrow>
                   Some (of_int (digits_value 10 (ip @ fp)) * pow10 (ex - int (length fp)))))"

definition unsigned_decimal :: "string \<Rightarrow> jsnum option" where
  "unsigned_decimal s =
     (if s = ''Infinity'' then Some PInf else map_option round_double (decimal_literal s))"

fun num_neg :: "jsnum \<Rightarrow> jsnum" where
  "num_neg NaN = NaN"
| "num_neg PInf = NInf"
| "num_neg NInf = PInf"
| "num_neg (Fin a) = Fin (- a)"

definition str_decimal :: "string \<Rightarrow> jsnum option" where
  "str_decimal s =
     (case s of
        [] \<Rightarrow> None
      | c # t \<Rightarrow>
          if c = CHR ''+'' then unsigned_decimal t
          else if c = CHR ''-'' then map_option num_neg (unsigned_decimal t)
          else unsigned_decimal s)"

definition prefixed_integer :: "string \<Rightarrow> jsnum option" where
  "prefixed_integer s =
     (case s of
        z # x # t \<Rightarrow>
          (let r = (if x = CHR ''x'' \<or> x = CHR ''X'' then 16
                    else if x = CHR ''o'' \<or> x = CHR ''O'' then 8
                    else if x = CHR ''b'' \<or> x = CHR ''B'' then 2 else (0::nat))
           in if z = CHR ''0'' \<and> r \<noteq> 0 \<and> t \<noteq> [] \<and> list_all (is_digit r) t
              then Some (round_double (of_int (digits_value r t))) else None)
      | _ \<Rightarrow> None)"

definition StringToNumber :: "string \<Rightarrow> jsnum" where
  "StringToNumber s =
     (let t = trim_js s
      in if t = [] then Fin 0
         else (case prefixed_integer t of
                 Some v \<Rightarrow> v
               | None \<Rightarrow> (case str_decimal t of Some v \<Rightarrow> v | None \<Rightarrow> NaN)))"

text \<open>
  \<open>Number(value)\<close>. An object is first converted to a primitive: its \<open>valueOf()\<close> is not
  one, so its \<open>toString()\<close> is taken.
\<close>

fun Number_js :: "jsval \<Rightarrow> jsnum" where
  "Number_js Undefined = NaN"
| "Number_js Null = Fin 0"
| "Number_js (Bool b) = Fin (if b then 1 else 0)"
| "Number_js (Num n) = n"
| "Number_js (Str s) = StringToNumber s"
| "Number_js (Obj s) = StringToNumber s"

text \<open>
  \<open>parseInt(s)\<close> with no radix: leading white space and a sign are skipped, a prefix
  \<open>0x\<close> selects radix 16, and the longest run of digits is read; no digit gives NaN. The
  integer read is rounded to binary64, so a long enough run of digits gives Infinity.
  (ECMA-262 lets an implementation replace the decimal digits after the twentieth by
  zeros; the exact value is kept here.)
\<close>

definition parseInt :: "string \<Rightarrow> jsnum" where
  "parseInt inputString =
     (let S = trim_start inputString;
          neg = (S \<noteq> [] \<and> hd S = CHR ''-'');
          S1 = (if S \<noteq> [] \<and> (hd S = CHR ''+'' \<or> hd S = CHR ''-'') then tl S else S);
          hex = (case S1 of z # x # _ \<Rightarrow> z = CHR ''0'' \<and> (x = CHR ''x'' \<or> x = CHR ''X'')
                 | _ \<Rightarrow> False);
          R = (if hex then 16 else 10);
          S2 = (if hex then drop 2 S1 else S1);
          Z = takeWhile (is_digit R) S2
      in if Z = [] then NaN
         else round_double (of_int (if neg then - digits_value R Z else digits_value R Z)))"

subsection \<open>Numbers to strings\<close>

text \<open>\<open>dec_exp a\<close> is the \<open>n\<close> with \<open>10^(n-1) \<le> a < 10^n\<close>, for \<open>a > 0\<close>.\<close>

definition dec_exp :: "rat \<Rightarrow> int" where
  "dec_exp a =
     (let (n, d) = quotient_of a;
          k0 = int (floorlog 10 (nat n)) - int (floorlog 10 (nat d))
      in if a < pow10 k0 then k0 else k0 + 1)"

text \<open>
  \<open>Number::toString\<close> takes the shortest digit string \<open>s\<close> (of \<open>k\<close> digits) and the
  exponent \<open>n\<close> such that \<open>s * 10^(n-k)\<close> rounds to the number, the closest to the number
  if several do. \<open>digits_for a n k\<close> looks for such an \<open>s\<close> of \<open>k\<close> digits.
\<close>

definition digits_for :: "rat \<Rightarrow> int \<Rightarrow> int \<Rightarrow> (int \<times> int) option" where
  "digits_for a n k =
     (let scale = pow10 (n - k);
          lo = \<lfloor>a / scale\<rfloor>;
          hi = lo + 1;
          good_lo = (round_double (of_int lo * scale) = Fin a);
          good_hi = (round_double (of_int hi * scale) = Fin a);
          dlo = a - of_int lo * scale;
          dhi = of_int hi * scale - a;
          up = (if hi = 10 ^ nat k then (10 ^ nat (k - 1), n + 1) else (hi, n))
      in if good_lo \<and> good_hi then
           (if dlo < dhi then Some (lo, n)
            else if dhi < dlo then Some up
            else if even lo then Some (lo, n) else Some up)
         else if good_lo then Some (lo, n)
         else if good_hi then Some up
         else None)"

primrec find_digits :: "nat \<Rightarrow> rat \<Rightarrow> int \<Rightarrow> int \<Rightarrow> int \<times> int" where
  "find_digits 0 a n k = (\<lfloor>a / pow10 (n - k)\<rfloor>, n)"
| "find_digits (Suc fuel) a n k =
     (case digits_for a n k of Some r \<Rightarrow> r | None \<Rightarrow> find_digits fuel a n (k + 1))"

definition pos_toString :: "rat \<Rightarrow> string" where
  "pos_toString a =
     (let (s, n) = find_digits 17 a (dec_exp a) 1;
          digs = dec_digits (nat s);
          k = int (length digs)
      in if k \<le> n \<and> n \<le> 21 then digs @ replicate (nat (n - k)) (CHR ''0'')
         else if 0 < n \<and> n \<le> 21 then take (nat n) digs @ ''.'' @ drop (nat n) digs
         else if - 6 < n \<and> n \<le> 0 then ''0.'' @ replicate (nat (- n)) (CHR ''0'') @ digs
         else (let e = n - 1;
                   es = (if e < 0 then ''-'' else ''+'') @ dec_digits (nat \<bar>e\<bar>)
               in if k = 1 then digs @ ''e'' @ es
                  else take 1 digs @ ''.'' @ drop 1 digs @ ''e'' @ es))"

fun numToString :: "jsnum \<Rightarrow> string" where
  "numToString NaN = ''NaN''"
| "numToString PInf = ''Infinity''"
| "numToString NInf = ''-Infinity''"
| "numToString (Fin q) =
     (if q = 0 then ''0'' else if q < 0 then ''-'' @ pos_toString (- q) else pos_toString q)"

text \<open>
  \<open>value.toString()\<close>, a method call: it raises a TypeError on \<open>undefined\<close> and
  \<open>null\<close>, which have no properties.
\<close>

fun toString_js :: "jsval \<Rightarrow> js_error + string" where
  "toString_js Undefined = Inl TypeError"
| "toString_js Null = Inl TypeError"
| "toString_js (Bool b) = Inr (if b then ''true'' else ''false'')"
| "toString_js (Num n) = Inr (numToString n)"
| "toString_js (Str s) = Inr s"
| "toString_js (Obj s) = Inr s"

text \<open>Truthiness, as \<open>!value\<close> and \<open>&&\<close> read it.\<close>

fun num_truthy :: "jsnum \<Rightarrow> bool" where
  "num_truthy NaN = False"
| "num_truthy (Fin q) = (q \<noteq> 0)"
| "num_truthy _ = True"

fun truthy :: "jsval \<Rightarrow> bool" where
  "truthy Undefined = False"
| "truthy Null = False"
| "truthy (Bool b) = b"
| "truthy (Num n) = num_truthy n"
| "truthy (Str s) = (s \<noteq> [])"
| "truthy (Obj s) = True"


section \<open>The validation engine (\<^verbatim>\<open>validateForm\<close> of \<^verbatim>\<open>utils/helpers.js\<close>)\<close>

text \<open>
  A rule of the rule set. An absent property (\<open>undefined\<close>) is \<open>None\<close>. \<open>pattern\<close> is
  the \<open>test\<close> method of the rule's regular expression (one without the sticky and global
  flags, whose \<open>test\<close> has no state); \<open>validate\<close> is the rule's custom function, which
  gets the value and the whole record and returns a message or \<open>null\<close>.
\<close>

record rule =
  required :: bool
  minLength :: "jsnum option"
  maxLength :: "jsnum option"
  pattern :: "(string \<Rightarrow> bool) option"
  message :: "string option"
  type :: "string option"
  min_js :: "jsnum option"
  max_js :: "jsnum option"
  validate :: "(jsval \<Rightarrow> (string \<rightharpoonup> jsval) \<Rightarrow> string option) option"

type_synonym formData = "string \<rightharpoonup> jsval"

text \<open>
  The rule set in the order of \<open>Object.keys\<close>; the errors object in insertion order,
  which is its \<open>Object.keys\<close> order for field names that are not array indices.
\<close>

type_synonym ruleSet = "(string \<times> rule) list"
type_synonym errorMap = "(string \<times> string) list"

record validationResult =
  isValid :: bool
  errors :: errorMap

text \<open>
  The record and the errors object are plain objects: what they do not hold themselves
  they inherit from \<open>Object.prototype\<close>. Its properties are eleven functions and the
  accessor \<open>__proto__\<close>, whose getter returns the prototype of the object, here
  \<open>Object.prototype\<close> itself. The text of a built-in function is left to the engine within
  the shape \<^verbatim>\<open>function name() { [native code] }\<close>; it is written here as V8 prints it.
\<close>

definition nativeFunction :: "string \<Rightarrow> jsval" where
  "nativeFunction nm = Obj (''function '' @ nm @ ''() { [native code] }'')"

definition objectPrototype :: "string \<Rightarrow> jsval option" where
  "objectPrototype key =
     (if key = ''constructor'' then Some (nativeFunction ''Object'')
      else if key = ''__proto__'' then Some (Obj ''[object Object]'')
      else if key \<in> set [''hasOwnProperty'', ''isPrototypeOf'', ''propertyIsEnumerable'',
                          ''toLocaleString'', ''toString'', ''valueOf'',
                          ''__defineGetter__'', ''__defineSetter__'',
                          ''__lookupGetter__'', ''__lookupSetter__'']
        then Some (nativeFunction key)
      else None)"

text \<open>
  \<open>data[field]\<close>, where the map \<open>data\<close> holds the own properties of the record: an own
  property is read first, then an inherited one, and a property found nowhere reads as
  \<open>undefined\<close>.
\<close>

definition get_field :: "formData \<Rightarrow> string \<Rightarrow> jsval" where
  "get_field data field =
     (case data field of
        Some v \<Rightarrow> v
      | None \<Rightarrow> (case objectPrototype field of None \<Rightarrow> Undefined | Some v \<Rightarrow> v))"

text \<open>
  \<open>errors[field] = msg\<close> on a plain object, with a string \<open>msg\<close>: the assignment to
  \<open>__proto__\<close> goes to the inherited setter, which ignores a value that is not an object,
  and adds no property; under every other name the object gets or overwrites an own
  property.
\<close>

definition setProperty :: "string \<Rightarrow> string \<Rightarrow> errorMap \<Rightarrow> errorMap" where
  "setProperty field msg errs =
     (if field = ''__proto__'' then errs else AList.update field msg errs)"

text \<open>
  Each check of the callback either raises, or reports a message (the callback then assigns
  it to \<open>errors[field]\<close> and returns), or passes. \<open>otherwise c rest\<close> goes on to \<open>rest\<close>
  only when \<open>c\<close> passed.
\<close>

definition otherwise ::
  "js_error + string option \<Rightarrow> js_error + string option \<Rightarrow> js_error + string option" where
  "otherwise c rest =
     (case c of Inl e \<Rightarrow> Inl e | Inr (Some msg) \<Rightarrow> Inr (Some msg) | Inr None \<Rightarrow> rest)"

definition with_string :: "jsval \<Rightarrow> (string \<Rightarrow> string option) \<Rightarrow> js_error + string option" where
  "with_string v k = (case toString_js v of Inl e \<Rightarrow> Inl e | Inr s \<Rightarrow> Inr (k s))"

text \<open>
  \<^verbatim>\<open>if (rule.required && (!value || value.toString().trim() === ''))\<close>
\<close>

definition requiredCheck :: "string \<Rightarrow> rule \<Rightarrow> jsval \<Rightarrow> js_error + string option" where
  "requiredCheck field rule v =
     (if required rule then
        (if \<not> truthy v then Inr (Some (field @ '' is required''))
         else with_string v
                (\<lambda>s. if trim_js s = [] then Some (field @ '' is required'') else None))
      else Inr None)"

text \<open>
  \<^verbatim>\<open>if (rule.minLength && value.toString().length < rule.minLength)\<close>
\<close>

definition minLengthCheck :: "string \<Rightarrow> rule \<Rightarrow> jsval \<Rightarrow> js_error + string option" where
  "minLengthCheck field rule v =
     (case minLength rule of
        None \<Rightarrow> Inr None
      | Some n \<Rightarrow>
          if num_truthy n then
            with_string v
              (\<lambda>s. if num_lt (Fin (of_nat (length s))) n
                   then Some (field @ '' must be at least '' @ numToString n @ '' characters'')
                   else None)
          else Inr None)"

text \<open>
  \<^verbatim>\<open>if (rule.maxLength && value.toString().length > rule.maxLength)\<close>
\<close>

definition maxLengthCheck :: "string \<Rightarrow> rule \<Rightarrow> jsval \<Rightarrow> js_error + string option" where
  "maxLengthCheck field rule v =
     (case maxLength rule of
        None \<Rightarrow> Inr None
      | Some n \<Rightarrow>
          if num_truthy n then
            with_string v
              (\<lambda>s. if num_gt (Fin (of_nat (length s))) n
                   then Some (field @ '' cannot exceed '' @ numToString n @ '' characters'')
                   else None)
          else Inr None)"

text \<open>
  \<^verbatim>\<open>if (rule.pattern && !rule.pattern.test(value.toString()))\<close>, with the message
  \<^verbatim>\<open>rule.message || `${field} format is invalid`\<close>
\<close>

definition patternCheck :: "string \<Rightarrow> rule \<Rightarrow> jsval \<Rightarrow> js_error + string option" where
  "patternCheck field rule v =
     (case pattern rule of
        None \<Rightarrow> Inr None
      | Some test \<Rightarrow>
          with_string v
            (\<lambda>s. if \<not> test s
                 then Some (case message rule of
                              None \<Rightarrow> field @ '' format is invalid''
                            | Some m \<Rightarrow> if m \<noteq> [] then m else field @ '' format is invalid'')
                 else None))"

text \<open>
  \<^verbatim>\<open>if (rule.type === 'number') { const num = Number(value); if (isNaN(num)) ...;
     if (rule.min !== undefined && num < rule.min) ...;
     if (rule.max !== undefined && num > rule.max) ... }\<close>
\<close>

definition numberCheck :: "string \<Rightarrow> rule \<Rightarrow> jsval \<Rightarrow> string option" where
  "numberCheck field rule v =
     (if type rule = Some ''number'' then
        (let num = Number_js v
         in if isNaN num then Some (field @ '' must be a valid number'')
            else if (case min_js rule of None \<Rightarrow> False | Some m \<Rightarrow> num_lt num m)
              then Some (field @ '' must be at least ''
                           @ (case min_js rule of None \<Rightarrow> [] | Some m \<Rightarrow> numToString m))
            else if (case max_js rule of None \<Rightarrow> False | Some m \<Rightarrow> num_gt num m)
              then Some (field @ '' cannot exceed ''
                           @ (case max_js rule of None \<Rightarrow> [] | Some m \<Rightarrow> numToString m))
            else None)
      else None)"

text \<open>
  \<^verbatim>\<open>if (rule.validate && typeof rule.validate === 'function') {
     const customError = rule.validate(value, data);
     if (customError) errors[field] = customError; }\<close>
  An empty message is falsy and is not recorded.
\<close>

definition customCheck :: "rule \<Rightarrow> jsval \<Rightarrow> formData \<Rightarrow> string option" where
  "customCheck rule v data =
     (case validate rule of
        None \<Rightarrow> None
      | Some f \<Rightarrow> (case f v data of None \<Rightarrow> None | Some m \<Rightarrow> if m \<noteq> [] then Some m else None))"

text \<open>The length, pattern and number checks, in the order of the source.\<close>

definition structuralChecks :: "string \<Rightarrow> rule \<Rightarrow> jsval \<Rightarrow> js_error + string option" where
  "structuralChecks field rule v =
     otherwise (minLengthCheck field rule v)
       (otherwise (maxLengthCheck field rule v)
         (otherwise (patternCheck field rule v)
           (Inr (numberCheck field rule v))))"

text \<open>
  The callback of \<^verbatim>\<open>Object.keys(rules).forEach(field => ...)\<close>: \<open>Inr (Some msg)\<close> when it
  assigns \<open>errors[field] = msg\<close>, \<open>Inr None\<close> when it assigns nothing. After the required
  check comes \<^verbatim>\<open>if (!value && !rule.required) return;\<close>.
\<close>

definition checkField :: "formData \<Rightarrow> string \<Rightarrow> rule \<Rightarrow> js_error + string option" where
  "checkField data field rule =
     (let v = get_field data field
      in otherwise (requiredCheck field rule v)
           (if \<not> truthy v \<and> \<not> required rule then Inr None
            else otherwise (structuralChecks field rule v)
                   (Inr (customCheck rule v data))))"

fun forEachField :: "formData \<Rightarrow> ruleSet \<Rightarrow> errorMap \<Rightarrow> js_error + errorMap" where
  "forEachField data [] errs = Inr errs"
| "forEachField data ((field, rule) # rest) errs =
     (case checkField data field rule of
        Inl e \<Rightarrow> Inl e
      | Inr None \<Rightarrow> forEachField data rest errs
      | Inr (Some msg) \<Rightarrow> forEachField data rest (setProperty field msg errs))"

definition validateForm :: "formData \<Rightarrow> ruleSet \<Rightarrow> js_error + validationResult" where
  "validateForm data rules =
     (case forEachField data rules [] of
        Inl e \<Rightarrow> Inl e
      | Inr errs \<Rightarrow> Inr \<lparr>isValid = (length (map fst errs) = 0), errors = errs\<rparr>)"

subsection \<open>The standalone copy of the engine\<close>

text \<open>
  The repository holds a second file with \<^verbatim>\<open>validateForm\<close> alone. Its callback runs the
  same checks in the same order, and returns after the first that fails.
\<close>

definition checkField_standalone ::
  "formData \<Rightarrow> string \<Rightarrow> rule \<Rightarrow> js_error + string option" where
  "checkField_standalone data field rule =
     (let v = get_field data field
      in otherwise (requiredCheck field rule v)
           (if \<not> truthy v \<and> \<not> required rule then Inr None
            else otherwise (minLengthCheck field rule v)
                   (otherwise (maxLengthCheck field rule v)
                     (otherwise (patternCheck field rule v)
                       (otherwise (Inr (numberCheck field rule v))
                         (Inr (customCheck rule v data)))))))"

fun forEachField_standalone ::
  "formData \<Rightarrow> ruleSet \<Rightarrow> errorMap \<Rightarrow> js_error + errorMap" where
  "forEachField_standalone data [] errs = Inr errs"
| "forEachField_standalone data ((field, rule) # rest) errs =
     (case checkField_standalone data field rule of
        Inl e \<Rightarrow> Inl e
      | Inr None \<Rightarrow> forEachField_standalone data rest errs
      | Inr (Some msg) \<Rightarrow> forEachField_standalone data rest (setProperty field msg errs))"

definition validateForm_standalone ::
  "formData \<Rightarrow> ruleSet \<Rightarrow> js_error + validationResult" where
  "validateForm_standalone data rules =
     (case forEachField_standalone data rules [] of
        Inl e \<Rightarrow> Inl e
      | Inr errs \<Rightarrow> Inr \<lparr>isValid = (length (map fst errs) = 0), errors = errs\<rparr>)"

subsection \<open>Rules used below\<close>

text \<open>The rule \<^verbatim>\<open>{}\<close>: every property absent.\<close>

definition emptyRule :: rule where
  "emptyRule =
     \<lparr>required = False, minLength = None, maxLength = None, pattern = None, message = None,
      type = None, min_js = None, max_js = None, validate = None\<rparr>"

text \<open>\<^verbatim>\<open>{required: true}\<close>\<close>

definition requiredRule :: rule where
  "requiredRule = emptyRule\<lparr>required := True\<rparr>"

text \<open>\<^verbatim>\<open>{type: "number", min: 1, max: 50000}\<close>\<close>

definition capacityBounds :: rule where
  "capacityBounds =
     emptyRule\<lparr>type := Some ''number'', min_js := Some (Fin 1), max_js := Some (Fin 50000)\<rparr>"

text \<open>\<^verbatim>\<open>{required: true, validate: () => "custom"}\<close>\<close>

definition alwaysCustom :: "jsval \<Rightarrow> formData \<Rightarrow> string option" where
  "alwaysCustom v data = Some ''custom''"

definition requiredWithCustom :: rule where
  "requiredWithCustom = emptyRule\<lparr>required := True, validate := Some alwaysCustom\<rparr>"

section \<open>Ride duration (\<^verbatim>\<open>calculateRideDuration\<close> of \<^verbatim>\<open>utils/helpers.js\<close>)\<close>

text \<open>
  \<^verbatim>\<open>const from = parseInt(fromPincode); const to = parseInt(toPincode);
  if (isNaN(from) || isNaN(to)) return 2;
  const duration = Math.abs(from - to) % 24;
  return Math.max(duration, 1);\<close>
  The body sits in a \<^verbatim>\<open>try\<close> whose handler returns 2; nothing in it raises on strings.
\<close>

definition calculateRideDuration :: "string \<Rightarrow> string \<Rightarrow> jsnum" where
  "calculateRideDuration fromPincode toPincode =
     (let fromN = parseInt fromPincode;
          toN = parseInt toPincode
      in if isNaN fromN \<or> isNaN toN then Fin 2
         else (let duration = num_rem (Math_abs (num_sub fromN toN)) (Fin 24)
               in Math_max duration (Fin 1)))"

section \<open>The response interceptor (\<^verbatim>\<open>services/api.js\<close>)\<close>

text \<open>
  The rejected-response handler sets \<open>error.message\<close>. A response body is either
  \<open>null\<close> or \<open>undefined\<close> (reading \<open>data.error\<close> then raises), or a value whose
  \<^verbatim>\<open>data.error?.message\<close> is a string or is absent.
\<close>

datatype responseData = NoData | Data "string option"

datatype axiosError = Response nat responseData | RequestOnly | SetupFailure

text \<open>\<^verbatim>\<open>data.error?.message || fallback\<close>\<close>

definition messageOr :: "responseData \<Rightarrow> string \<Rightarrow> js_error + string" where
  "messageOr d fallback =
     (case d of
        NoData \<Rightarrow> Inl TypeError
      | Data None \<Rightarrow> Inr fallback
      | Data (Some m) \<Rightarrow> Inr (if m \<noteq> [] then m else fallback))"

definition responseErrorMessage :: "axiosError \<Rightarrow> js_error + string" where
  "responseErrorMessage err =
     (case err of
        Response status d \<Rightarrow>
          if status = 400 then messageOr d ''Invalid request data''
          else if status = 401 then Inr ''Authentication required''
          else if status = 403 then Inr ''Access denied''
          else if status = 404 then Inr ''Resource not found''
          else if status = 409 then messageOr d ''Conflict occurred''
          else if status = 422 then Inr ''Validation failed''
          else if status = 429 then Inr ''Too many requests. Please try again later''
          else if status = 500 then Inr ''Internal server error''
          else messageOr d ''An error occurred''
      | RequestOnly \<Rightarrow> Inr ''Network error. Please check your internet connection''
      | SetupFailure \<Rightarrow> Inr ''An unexpected error occurred'')"

section \<open>The add-vehicle form (\<^verbatim>\<open>pages/AddVehicle.jsx\<close>)\<close>

datatype toast = ToastError string | ToastSuccess string | ToastInfo string

text \<open>
  The form state holds what the three inputs hold: strings (\<open>e.target.value\<close>), also for
  the inputs of type number.
\<close>

record vehicleForm =
  name :: string
  capacityKg :: string
  tyres :: string

text \<open>The body of the request of \<^verbatim>\<open>vehicleAPI.addVehicle\<close>.\<close>

record vehicleData =
  vd_name :: string
  vd_capacityKg :: jsnum
  vd_tyres :: jsnum

text \<open>
  The component's state (\<open>formErrors\<close> is its \<open>errors\<close>), and what it has done to the world:
  the toasts shown, the requests sent, and the delays of the reset callbacks it has
  scheduled with \<open>setTimeout\<close>.
\<close>

record addVehicle =
  formData :: vehicleForm
  formErrors :: errorMap
  isSubmitting :: bool
  isSuccess :: bool
  toasts :: "toast list"
  requests :: "vehicleData list"
  timers :: "nat list"

datatype submissionState = Idle | Submitting | Succeeded

definition submissionState :: "addVehicle \<Rightarrow> submissionState" where
  "submissionState s =
     (if isSubmitting s then Submitting else if isSuccess s then Succeeded else Idle)"

definition validationRules :: ruleSet where
  "validationRules =
     [(''name'', emptyRule\<lparr>required := True, minLength := Some (Fin 2),
          maxLength := Some (Fin 100),
          message := Some ''Vehicle name must be between 2-100 characters''\<rparr>),
      (''capacityKg'', emptyRule\<lparr>required := True, type := Some ''number'',
          min_js := Some (Fin 1), max_js := Some (Fin 50000),
          message := Some ''Capacity must be between 1-50,000 kg''\<rparr>),
      (''tyres'', emptyRule\<lparr>required := True, type := Some ''number'',
          min_js := Some (Fin 2), max_js := Some (Fin 18),
          message := Some ''Number of tyres must be between 2-18''\<rparr>)]"

definition vehicleFormData :: "vehicleForm \<Rightarrow> formData" where
  "vehicleFormData f =
     [''name'' \<mapsto> Str (name f), ''capacityKg'' \<mapsto> Str (capacityKg f),
      ''tyres'' \<mapsto> Str (tyres f)]"

definition emptyVehicleForm :: vehicleForm where
  "emptyVehicleForm = \<lparr>name = [], capacityKg = [], tyres = []\<rparr>"

text \<open>
  \<open>handleSubmit\<close> up to its \<open>await\<close>: validation, and either the error path (which
  returns) or the request. An exception of \<open>validateForm\<close> would leave the handler, since
  the call is outside the \<open>try\<close>.
\<close>

definition handleSubmit :: "addVehicle \<Rightarrow> js_error + addVehicle" where
  "handleSubmit s =
     (case validateForm (vehicleFormData (formData s)) validationRules of
        Inl e \<Rightarrow> Inl e
      | Inr validation \<Rightarrow>
          if \<not> isValid validation then
            Inr (s\<lparr>formErrors := errors validation,
                   toasts := toasts s @ [ToastError ''Please fix the errors in the form'']\<rparr>)
          else
            Inr (s\<lparr>isSubmitting := True,
                   formErrors := [],
                   requests := requests s @
                     [\<lparr>vd_name = trim_js (name (formData s)),
                       vd_capacityKg = parseInt (capacityKg (formData s)),
                       vd_tyres = parseInt (tyres (formData s))\<rparr>]\<rparr>))"

text \<open>
  How the request settles: fulfilled, with \<open>response.data.success\<close> truthy or not, or
  rejected, with \<^verbatim>\<open>error.response?.data?.error?.message\<close> and the list
  \<^verbatim>\<open>error.response?.data?.error?.details?.validationErrors\<close> of paths and messages,
  when there are any.
\<close>

datatype settlement = Fulfilled bool | Rejected "string option" "(string \<times> string) list option"

text \<open>\<open>handleSubmit\<close> after its \<open>await\<close>, with the \<open>finally\<close> block last.\<close>

definition handleSubmit_settled :: "settlement \<Rightarrow> addVehicle \<Rightarrow> addVehicle" where
  "handleSubmit_settled r s =
     (let s1 =
        (case r of
           Fulfilled success \<Rightarrow>
             if success then
               s\<lparr>toasts := toasts s @ [ToastSuccess ''Vehicle added successfully!''],
                 isSuccess := True,
                 timers := timers s @ [2000]\<rparr>
             else s
         | Rejected msg details \<Rightarrow>
             (let s' = s\<lparr>toasts := toasts s @
                         [ToastError (case msg of None \<Rightarrow> ''Failed to add vehicle''
                                      | Some m \<Rightarrow> if m \<noteq> [] then m
                                                  else ''Failed to add vehicle'')]\<rparr>
              in case details of
                   None \<Rightarrow> s'
                 | Some errs \<Rightarrow>
                     s'\<lparr>formErrors :=
                          foldl (\<lambda>serverErrors (path, m). setProperty path m serverErrors)
                            [] errs\<rparr>))
      in s1\<lparr>isSubmitting := False\<rparr>)"

text \<open>
  The callback given to \<open>setTimeout\<close>:
  \<^verbatim>\<open>setFormData({ name: '', capacityKg: '', tyres: '' }); setIsSuccess(false);\<close>
  It runs when the first scheduled delay has passed.
\<close>

definition resetTimeout :: "addVehicle \<Rightarrow> addVehicle" where
  "resetTimeout s =
     s\<lparr>formData := emptyVehicleForm, isSuccess := False, timers := tl (timers s)\<rparr>"

section \<open>The search form (\<^verbatim>\<open>pages/SearchBooking.jsx\<close>)\<close>

text \<open>
  The start-time rule reads the clock. \<open>dateValue v\<close> is the time value of \<open>new Date(v)\<close>
  (\<open>None\<close> for an invalid date), \<open>minDate\<close> that of the date one hour from now which the rule
  builds.
\<close>

record dates =
  dateValue :: "jsval \<Rightarrow> int option"
  minDate :: int

text \<open>
  \<^verbatim>\<open>if (selectedDate <= minDate) return 'Start time must be at least 1 hour from now';
  return null;\<close> An invalid date compares false.
\<close>

definition startTimeValidate :: "dates \<Rightarrow> jsval \<Rightarrow> formData \<Rightarrow> string option" where
  "startTimeValidate d v data =
     (case dateValue d v of
        None \<Rightarrow> None
      | Some selectedDate \<Rightarrow>
          if selectedDate \<le> minDate d then Some ''Start time must be at least 1 hour from now''
          else None)"

text \<open>\<^verbatim>\<open>/^\d{6}$/.test(s)\<close>\<close>

definition pincodePattern :: "string \<Rightarrow> bool" where
  "pincodePattern s = (length s = 6 \<and> list_all (is_digit 10) s)"

definition searchValidationRules :: "dates \<Rightarrow> ruleSet" where
  "searchValidationRules d =
     [(''capacityRequired'', emptyRule\<lparr>required := True, type := Some ''number'',
          min_js := Some (Fin 1), max_js := Some (Fin 50000),
          message := Some ''Required capacity must be between 1-50,000 kg''\<rparr>),
      (''fromPincode'', emptyRule\<lparr>required := True, pattern := Some pincodePattern,
          message := Some ''From pincode must be exactly 6 digits''\<rparr>),
      (''toPincode'', emptyRule\<lparr>required := True, pattern := Some pincodePattern,
          message := Some ''To pincode must be exactly 6 digits''\<rparr>),
      (''startTime'', emptyRule\<lparr>required := True, validate := Some (startTimeValidate d)\<rparr>)]"

record searchForm =
  capacityRequired :: string
  fromPincode :: string
  toPincode :: string
  startTime :: string

definition searchFormData :: "searchForm \<Rightarrow> formData" where
  "searchFormData f =
     [''capacityRequired'' \<mapsto> Str (capacityRequired f),
      ''fromPincode'' \<mapsto> Str (fromPincode f),
      ''toPincode'' \<mapsto> Str (toPincode f),
      ''startTime'' \<mapsto> Str (startTime f)]"

text \<open>The parameters of \<^verbatim>\<open>vehicleAPI.getAvailableVehicles\<close>; the start time by its time value.\<close>

record searchParams =
  sp_capacityRequired :: jsnum
  sp_fromPincode :: string
  sp_toPincode :: string
  sp_startTime :: int

record searchBooking =
  searchData :: searchForm
  searchErrors :: errorMap
  isSearching :: bool
  hasSearched :: bool
  availableVehicles :: "string list"
  searchToasts :: "toast list"
  searchRequests :: "searchParams list"

text \<open>
  \<open>handleSearch\<close> up to its \<open>await\<close>. \<open>toISOString\<close> raises on an invalid date, inside
  the \<open>try\<close>: the handler then shows the fallback toast, and the \<open>finally\<close> block runs.
\<close>

definition handleSearch :: "dates \<Rightarrow> searchBooking \<Rightarrow> js_error + searchBooking" where
  "handleSearch d s =
     (case validateForm (searchFormData (searchData s)) (searchValidationRules d) of
        Inl e \<Rightarrow> Inl e
      | Inr validation \<Rightarrow>
          if \<not> isValid validation then
            Inr (s\<lparr>searchErrors := errors validation,
                   searchToasts := searchToasts s @
                     [ToastError ''Please fix the errors in the search form'']\<rparr>)
          else if fromPincode (searchData s) = toPincode (searchData s) then
            Inr (s\<lparr>searchErrors :=
                     [(''toPincode'', ''Destination must be different from pickup location'')],
                   searchToasts := searchToasts s @
                     [ToastError ''Pickup and destination locations must be different'']\<rparr>)
          else
            (let s1 = s\<lparr>isSearching := True, searchErrors := [], availableVehicles := []\<rparr>
             in case dateValue d (Str (startTime (searchData s))) of
                  None \<Rightarrow>
                    Inr (s1\<lparr>searchToasts := searchToasts s1 @
                              [ToastError ''Failed to search vehicles''],
                            hasSearched := True,
                            isSearching := False\<rparr>)
                | Some t \<Rightarrow>
                    Inr (s1\<lparr>searchRequests := searchRequests s1 @
                              [\<lparr>sp_capacityRequired = parseInt (capacityRequired (searchData s)),
                                sp_fromPincode = trim_js (fromPincode (searchData s)),
                                sp_toPincode = trim_js (toPincode (searchData s)),
                                sp_startTime = t\<rparr>]\<rparr>)))"

section \<open>Example states\<close>

text \<open>An add-vehicle form that fails validation on its three fields, and one that passes.\<close>

definition invalidVehicle :: addVehicle where
  "invalidVehicle =
     \<lparr>formData = \<lparr>name = [], capacityKg = ''60000'', tyres = ''1''\<rparr>,
      formErrors = [], isSubmitting = False, isSuccess = False,
      toasts = [], requests = [], timers = []\<rparr>"

definition validVehicle :: addVehicle where
  "validVehicle =
     \<lparr>formData = \<lparr>name = ''Tata Ace'', capacityKg = ''750'', tyres = ''4''\<rparr>,
      formErrors = [], isSubmitting = False, isSuccess = False,
      toasts = [], requests = [], timers = []\<rparr>"

text \<open>
  A clock for which every start time lies more than an hour ahead, and a search form with
  the same pincode twice.
\<close>

definition laterDate :: "jsval \<Rightarrow> int option" where
  "laterDate v = Some 7200000"

definition exampleDates :: dates where
  "exampleDates = \<lparr>dateValue = laterDate, minDate = 3600000\<rparr>"

definition samePincodeSearch :: searchBooking where
  "samePincodeSearch =
     \<lparr>searchData = \<lparr>capacityRequired = ''500'', fromPincode = ''110001'',
                     toPincode = ''110001'', startTime = ''2030-01-01T10:00''\<rparr>,
      searchErrors = [], isSearching = False, hasSearched = False, availableVehicles = [],
      searchToasts = [], searchRequests = []\<rparr>"

text \<open>The same search form with the required capacity left empty.\<close>

definition noCapacitySearch :: searchBooking where
  "noCapacitySearch =
     samePincodeSearch\<lparr>searchData := (searchData samePincodeSearch)\<lparr>capacityRequired := []\<rparr>\<rparr>"

text \<open>A pincode of 309 digits.\<close>

definition longPincode :: string where
  "longPincode = replicate 309 (CHR ''9'')"


section \<open>Facts about rounding\<close>

text \<open>
  Integers below \<open>2^53\<close> in magnitude are binary64 values, and everything from
  \<open>2^1024\<close> on rounds to infinity.
\<close>

lemma pow2_powi: "pow2 e = 2 powi e"
  by (simp add: pow2_def power_int_def power_one_over)

lemma pow2_pos: "0 < pow2 e"
  by (simp add: pow2_powi)

lemma pow2_add: "pow2 (a + b) = pow2 a * pow2 b"
  by (simp add: pow2_powi power_int_add)

lemma pow2_mono: "a \<le> b \<Longrightarrow> pow2 a \<le> pow2 b"
  by (simp add: pow2_powi power_int_increasing)

lemma pow2_less_cancel: "pow2 a < pow2 b \<Longrightarrow> a < b"
  using pow2_mono [of b a] by (cases "a < b") auto

lemma pow2_nat: "0 \<le> e \<Longrightarrow> pow2 e = 2 ^ nat e"
  by (simp add: pow2_def)

lemma bin_exp_bounds:
  assumes "0 < a"
  shows "pow2 (bin_exp a) \<le> a \<and> a < pow2 (bin_exp a + 1)"
proof -
  obtain n d where q: "quotient_of a = (n, d)" by (cases "quotient_of a")
  have d: "0 < d" using quotient_of_denom_pos [OF q] .
  have a: "a = of_int n / of_int d" using quotient_of_div [OF q] .
  have n: "0 < n" using assms a d by (simp add: zero_less_divide_iff)
  define e0 where "e0 = bitlen n - bitlen d"
  have bn: "1 \<le> bitlen n" and bd: "1 \<le> bitlen d"
    using n d bitlen_eq_zero_iff [of n] bitlen_eq_zero_iff [of d]
      bitlen_nonneg [of n] bitlen_nonneg [of d] by linarith+
  have n_lo: "pow2 (bitlen n - 1) \<le> of_int n"
  proof -
    have "(2::int) ^ nat (bitlen n - 1) \<le> n" using bitlen_bounds [OF n] by blast
    then have "(of_int ((2::int) ^ nat (bitlen n - 1)) :: rat) \<le> of_int n"
      by (simp only: of_int_le_iff)
    with bn show ?thesis by (simp add: pow2_nat)
  qed
  have n_hi: "of_int n < pow2 (bitlen n)"
  proof -
    have "n < (2::int) ^ nat (bitlen n)" using bitlen_bounds [OF n] by blast
    then have "(of_int n :: rat) < of_int ((2::int) ^ nat (bitlen n))"
      by (simp only: of_int_less_iff)
    with bn show ?thesis by (simp add: pow2_nat)
  qed
  have d_lo: "pow2 (bitlen d - 1) \<le> of_int d"
  proof -
    have "(2::int) ^ nat (bitlen d - 1) \<le> d" using bitlen_bounds [OF d] by blast
    then have "(of_int ((2::int) ^ nat (bitlen d - 1)) :: rat) \<le> of_int d"
      by (simp only: of_int_le_iff)
    with bd show ?thesis by (simp add: pow2_nat)
  qed
  have d_hi: "of_int d < pow2 (bitlen d)"
  proof -
    have "d < (2::int) ^ nat (bitlen d)" using bitlen_bounds [OF d] by blast
    then have "(of_int d :: rat) < of_int ((2::int) ^ nat (bitlen d))"
      by (simp only: of_int_less_iff)
    with bd show ?thesis by (simp add: pow2_nat)
  qed
  have dpos: "(0::rat) < of_int d" using d by simp
  have upper: "a < pow2 (e0 + 1)"
  proof -
    have "of_int n < pow2 (bitlen n)" by (rule n_hi)
    also have "pow2 (bitlen n) = pow2 (e0 + 1) * pow2 (bitlen d - 1)"
      by (simp add: e0_def flip: pow2_add)
    also have "\<dots> \<le> pow2 (e0 + 1) * of_int d"
      using d_lo pow2_pos [of "e0 + 1"] by (simp add: mult_left_mono)
    finally show ?thesis using dpos by (simp add: a pos_divide_less_eq)
  qed
  have lower: "pow2 (e0 - 1) \<le> a"
  proof -
    have "pow2 (e0 - 1) * of_int d \<le> pow2 (e0 - 1) * pow2 (bitlen d)"
      using d_hi pow2_pos [of "e0 - 1"] by (simp add: mult_left_mono)
    also have "\<dots> = pow2 (bitlen n - 1)"
      by (simp add: e0_def flip: pow2_add)
    also have "\<dots> \<le> of_int n" by (rule n_lo)
    finally show ?thesis using dpos by (simp add: a pos_le_divide_eq)
  qed
  have be: "bin_exp a = (if pow2 e0 \<le> a then e0 else e0 - 1)"
    by (simp add: bin_exp_def q e0_def Let_def)
  show ?thesis
  proof (cases "pow2 e0 \<le> a")
    case True
    with be upper show ?thesis by simp
  next
    case False
    with be lower show ?thesis by simp
  qed
qed

lemma round_half_even_of_int: "round_half_even (of_int k) = k"
  by (simp add: round_half_even_def Let_def)

lemma round_half_even_ge_floor: "\<lfloor>m\<rfloor> \<le> round_half_even m"
  by (simp add: round_half_even_def Let_def)

lemma round_pos_small_int:
  assumes "0 < n" and "n < 2 ^ 53"
  shows "round_pos (of_int n) = of_int n"
proof -
  define a :: rat where "a = of_int n"
  define e where "e = bin_exp a"
  have apos: "0 < a" using assms(1) by (simp add: a_def)
  from bin_exp_bounds [OF apos] have lo: "pow2 e \<le> a" and hi: "a < pow2 (e + 1)"
    by (simp_all add: e_def)
  have "pow2 0 \<le> a" using assms(1) by (simp add: a_def pow2_def)
  with hi have "pow2 0 < pow2 (e + 1)" by simp
  then have e0: "0 \<le> e" using pow2_less_cancel [of 0 "e + 1"] by simp
  have "(of_int n :: rat) < of_int (2 ^ 53)" using assms(2) by (simp only: of_int_less_iff)
  then have "a < pow2 53" by (simp add: a_def pow2_def)
  with lo have "pow2 e < pow2 53" by simp
  then have e52: "e \<le> 52" using pow2_less_cancel [of e 53] by simp
  have p: "max (e - 52) (- 1074) = e - 52" using e0 by simp
  have inv: "pow2 (52 - e) * pow2 (e - 52) = 1"
    by (simp flip: pow2_add add: pow2_def)
  have "a / pow2 (e - 52) = a * pow2 (52 - e) * pow2 (e - 52) / pow2 (e - 52)"
    using inv by (simp add: mult.assoc)
  also have "\<dots> = a * pow2 (52 - e)"
    using pow2_pos [of "e - 52"] by simp
  also have "\<dots> = of_int (n * 2 ^ nat (52 - e))"
    using e52 by (simp add: a_def pow2_nat)
  finally have m: "a / pow2 (e - 52) = of_int (n * 2 ^ nat (52 - e))" .
  have "round_pos a = of_int (round_half_even (a / pow2 (e - 52))) * pow2 (e - 52)"
    by (simp add: round_pos_def Let_def p flip: e_def)
  also have "\<dots> = of_int (n * 2 ^ nat (52 - e)) * pow2 (e - 52)"
    by (simp only: m round_half_even_of_int)
  also have "\<dots> = a * pow2 (52 - e) * pow2 (e - 52)"
    using e52 by (simp add: a_def pow2_nat)
  also have "\<dots> = a" using inv by (simp add: mult.assoc)
  finally show ?thesis by (simp add: a_def)
qed

lemma round_double_small_int:
  assumes "\<bar>n\<bar> < 2 ^ 53"
  shows "round_double (of_int n) = Fin (of_int n)"
proof -
  have big: "\<not> pow2 1024 \<le> of_int k" if "0 < k" "k < 2 ^ 53" for k :: int
  proof -
    have "(of_int k :: rat) < of_int (2 ^ 53)" using that by (simp only: of_int_less_iff)
    also have "\<dots> = pow2 53" by (simp add: pow2_def)
    also have "\<dots> \<le> pow2 1024" by (rule pow2_mono) simp
    finally show ?thesis by simp
  qed
  consider "n = 0" | "0 < n" | "n < 0" by linarith
  then show ?thesis
  proof cases
    case 1
    then show ?thesis by (simp add: round_double_def)
  next
    case 2
    with assms have "n < 2 ^ 53" by simp
    with 2 show ?thesis
      using round_pos_small_int [of n] big [of n] by (simp add: round_double_def Let_def)
  next
    case 3
    with assms have "0 < - n" "- n < 2 ^ 53" by simp_all
    with 3 show ?thesis
      using round_pos_small_int [of "- n"] big [of "- n"]
      by (simp add: round_double_def Let_def)
  qed
qed

lemma round_double_overflow:
  assumes "pow2 1024 \<le> q"
  shows "round_double q = PInf"
proof -
  have qpos: "0 < q" using assms pow2_pos [of 1024] by linarith
  define e where "e = bin_exp q"
  from bin_exp_bounds [OF qpos] have lo: "pow2 e \<le> q" and hi: "q < pow2 (e + 1)"
    by (simp_all add: e_def)
  from assms hi have "pow2 1024 < pow2 (e + 1)" by simp
  then have e: "1024 \<le> e" using pow2_less_cancel [of 1024 "e + 1"] by simp
  then have p: "max (e - 52) (- 1074) = e - 52" by simp
  define m where "m = q / pow2 (e - 52)"
  have "pow2 52 * pow2 (e - 52) \<le> q" using lo by (simp flip: pow2_add)
  then have "pow2 52 \<le> m"
    using pow2_pos [of "e - 52"] by (simp add: m_def pos_le_divide_eq)
  then have "(of_int (2 ^ 52) :: rat) \<le> m" by (simp add: pow2_def)
  then have "2 ^ 52 \<le> \<lfloor>m\<rfloor>" by (simp only: le_floor_iff)
  with round_half_even_ge_floor [of m] have "2 ^ 52 \<le> round_half_even m" by linarith
  then have "(of_int (2 ^ 52) :: rat) \<le> of_int (round_half_even m)"
    by (simp only: of_int_le_iff)
  then have "pow2 52 \<le> of_int (round_half_even m)" by (simp add: pow2_def)
  then have "pow2 52 * pow2 (e - 52) \<le> of_int (round_half_even m) * pow2 (e - 52)"
    using pow2_pos [of "e - 52"] by (simp add: mult_right_mono)
  then have "pow2 e \<le> of_int (round_half_even m) * pow2 (e - 52)"
    by (simp flip: pow2_add)
  moreover have "pow2 1024 \<le> pow2 e" using e by (rule pow2_mono)
  moreover have "round_pos q = of_int (round_half_even m) * pow2 (e - 52)"
    by (simp add: round_pos_def Let_def p m_def flip: e_def)
  ultimately have "pow2 1024 \<le> round_pos q" by simp
  with qpos show ?thesis by (simp add: round_double_def Let_def)
qed


subsection \<open>Conversions of the literals that occur below\<close>

lemma round_double_numeral:
  "(numeral k :: int) < 2 ^ 53 \<Longrightarrow> round_double (numeral k) = Fin (numeral k)"
  using round_double_small_int [of "numeral k"] by simp

lemma round_double_0: "round_double 0 = Fin 0"
  by (simp add: round_double_def)

lemma round_double_1: "round_double 1 = Fin 1"
  using round_double_small_int [of 1] by simp

lemmas str_num_defs = StringToNumber_def trim_js_def is_ws_def prefixed_integer_def
  str_decimal_def unsigned_decimal_def decimal_literal_def exponent_part_def signed_integer_def
  is_digit_def radix_digit_def digit_of_def digits_value_def pow10_def Let_def
  round_double_numeral round_double_0 round_double_1

lemma Number_0: "StringToNumber ''0'' = Fin 0" by (simp add: str_num_defs)
lemma Number_50001: "StringToNumber ''50001'' = Fin 50001" by (simp add: str_num_defs)
lemma Number_abc: "StringToNumber ''abc'' = NaN" by (simp add: str_num_defs)


lemma floor_rat_numeral_div [simp]:
  "\<lfloor>numeral a / numeral b :: rat\<rfloor> = numeral a div numeral b"
  using floor_divide_of_int_eq [of "numeral a" "numeral b", where ?'a = rat] by simp

lemma find_digits_17:
  "find_digits 17 a n k =
     (case digits_for a n k of Some r \<Rightarrow> r | None \<Rightarrow> find_digits 16 a n (k + 1))"
proof -
  have "(17::nat) = Suc 16" by simp
  then show ?thesis by (simp only: find_digits.simps)
qed

lemma digit_chars:
  "char_of (48::nat) = CHR ''0''" "char_of (49::nat) = CHR ''1''"
  "char_of (50::nat) = CHR ''2''" "char_of (51::nat) = CHR ''3''"
  "char_of (52::nat) = CHR ''4''" "char_of (53::nat) = CHR ''5''"
  "char_of (54::nat) = CHR ''6''" "char_of (55::nat) = CHR ''7''"
  "char_of (56::nat) = CHR ''8''" "char_of (57::nat) = CHR ''9''"
  by code_simp+

lemma replicate_numeral: "replicate (numeral k) x = x # replicate (pred_numeral k) x"
  by (simp add: numeral_eq_Suc)

lemmas num_str_defs = pos_toString_def find_digits_17 digits_for_def dec_exp_def
  compute_floorlog pow10_def Let_def round_double_numeral round_double_0 round_double_1
  digit_chars replicate_numeral

lemma pos_toString_1: "pos_toString 1 = ''1''" by (simp add: num_str_defs)
lemma pos_toString_2: "pos_toString 2 = ''2''" by (simp add: num_str_defs)
lemma pos_toString_50000: "pos_toString 50000 = ''50000''" by (simp add: num_str_defs)


section \<open>Properties of the validation engine\<close>

subsection \<open>No check raises\<close>

text \<open>
  \<open>toString\<close> is only reached with a truthy value, so neither the callback nor the loop
  raises.
\<close>

lemma toString_truthy: "truthy v \<Longrightarrow> \<exists>s. toString_js v = Inr s"
  by (cases v) auto

lemma with_string_truthy: "truthy v \<Longrightarrow> \<exists>r. with_string v k = Inr r"
  using toString_truthy [of v] by (auto simp: with_string_def)

lemma requiredCheck_returns: "\<exists>r. requiredCheck field rule v = Inr r"
  using with_string_truthy [of v] by (auto simp: requiredCheck_def)

lemma minLengthCheck_returns: "truthy v \<Longrightarrow> \<exists>r. minLengthCheck field rule v = Inr r"
  using with_string_truthy [of v] by (auto simp: minLengthCheck_def split: option.splits)

lemma maxLengthCheck_returns: "truthy v \<Longrightarrow> \<exists>r. maxLengthCheck field rule v = Inr r"
  using with_string_truthy [of v] by (auto simp: maxLengthCheck_def split: option.splits)

lemma patternCheck_returns: "truthy v \<Longrightarrow> \<exists>r. patternCheck field rule v = Inr r"
  using with_string_truthy [of v] by (auto simp: patternCheck_def split: option.splits)

lemma otherwise_returns:
  "\<exists>r. c = Inr r \<Longrightarrow> \<exists>r. rest = Inr r \<Longrightarrow> \<exists>r. otherwise c rest = Inr r"
  by (auto simp: otherwise_def split: option.splits)

lemma structuralChecks_returns: "truthy v \<Longrightarrow> \<exists>r. structuralChecks field rule v = Inr r"
  unfolding structuralChecks_def
  by (intro otherwise_returns minLengthCheck_returns maxLengthCheck_returns
        patternCheck_returns) auto

lemma checkField_returns: "\<exists>r. checkField data field rule = Inr r"
proof (cases "truthy (get_field data field)")
  case True
  then show ?thesis
    unfolding checkField_def Let_def
    by (intro otherwise_returns requiredCheck_returns) (auto intro!: otherwise_returns structuralChecks_returns)
next
  case False
  then show ?thesis
    by (auto simp: checkField_def Let_def requiredCheck_def otherwise_def)
qed

subsection \<open>What the loop leaves in the errors object\<close>

lemma keys_setProperty: "fst ` set (setProperty f m errs) \<subseteq> insert f (fst ` set errs)"
  by (simp add: setProperty_def dom_update subset_insertI)

lemma map_of_setProperty_other:
  "f \<noteq> field \<Longrightarrow> map_of (setProperty f m errs) field = map_of errs field"
  by (simp add: setProperty_def update_conv')

lemma map_of_setProperty_same:
  "field \<noteq> ''__proto__'' \<Longrightarrow> map_of (setProperty field m errs) field = Some m"
  by (simp add: setProperty_def update_conv')

lemma forEachField_keys:
  "\<exists>errs'. forEachField data rules errs = Inr errs' \<and>
     fst ` set errs' \<subseteq> fst ` set errs \<union> fst ` set rules"
proof (induction rules arbitrary: errs)
  case Nil
  show ?case by simp
next
  case (Cons fr rules)
  obtain field rule where fr: "fr = (field, rule)" by (cases fr)
  obtain r where r: "checkField data field rule = Inr r"
    using checkField_returns by blast
  define errs1 where "errs1 = (case r of None \<Rightarrow> errs | Some msg \<Rightarrow> setProperty field msg errs)"
  have step: "forEachField data (fr # rules) errs = forEachField data rules errs1"
    by (simp add: fr r errs1_def split: option.splits)
  have keys1: "fst ` set errs1 \<subseteq> insert field (fst ` set errs)"
    by (cases r) (simp_all add: errs1_def keys_setProperty subset_insertI)
  from Cons.IH [of errs1] obtain errs' where
    run: "forEachField data rules errs1 = Inr errs'" and
    sub: "fst ` set errs' \<subseteq> fst ` set errs1 \<union> fst ` set rules"
    by blast
  have "fst ` set errs' \<subseteq> fst ` set errs \<union> fst ` set (fr # rules)"
    using sub keys1 fr by auto
  with step run show ?case by simp
qed

lemma forEachField_other:
  "field \<notin> fst ` set rules \<Longrightarrow> forEachField data rules errs = Inr errs' \<Longrightarrow>
   map_of errs' field = map_of errs field"
proof (induction rules arbitrary: errs)
  case Nil
  then show ?case by simp
next
  case (Cons fr rules)
  obtain f r where fr: "fr = (f, r)" by (cases fr)
  with Cons.prems have neq: "f \<noteq> field" and rest: "field \<notin> fst ` set rules" by auto
  obtain c where c: "checkField data f r = Inr c"
    using checkField_returns by blast
  show ?case
  proof (cases c)
    case None
    with Cons.prems(2) fr c have "forEachField data rules errs = Inr errs'" by simp
    with Cons.IH rest show ?thesis by blast
  next
    case (Some msg)
    with Cons.prems(2) fr c
    have "forEachField data rules (setProperty f msg errs) = Inr errs'" by simp
    with Cons.IH rest have "map_of errs' field = map_of (setProperty f msg errs) field"
      by blast
    with neq show ?thesis by (simp add: map_of_setProperty_other)
  qed
qed

text \<open>
  Under a name other than \<open>__proto__\<close>, the entry of a field is the message its callback
  assigned, if it assigned one.
\<close>

lemma forEachField_lookup:
  "distinct (map fst rules) \<Longrightarrow> (field, rule) \<in> set rules \<Longrightarrow>
   forEachField data rules errs = Inr errs' \<Longrightarrow> field \<noteq> ''__proto__'' \<Longrightarrow>
   map_of errs' field =
     (case checkField data field rule of Inr (Some msg) \<Rightarrow> Some msg | _ \<Rightarrow> map_of errs field)"
proof (induction rules arbitrary: errs)
  case Nil
  then show ?case by simp
next
  case (Cons fr rules)
  obtain f r where fr: "fr = (f, r)" by (cases fr)
  obtain c where c: "checkField data f r = Inr c"
    using checkField_returns by blast
  define errs1 where "errs1 = (case c of None \<Rightarrow> errs | Some msg \<Rightarrow> setProperty f msg errs)"
  from Cons.prems(3) fr c have run: "forEachField data rules errs1 = Inr errs'"
    by (simp add: errs1_def split: option.splits)
  from Cons.prems(1) fr have fresh: "f \<notin> fst ` set rules" and dist: "distinct (map fst rules)"
    by auto
  show ?case
  proof (cases "f = field")
    case True
    with Cons.prems(2) fr fresh have "r = rule" by force
    moreover from True fresh run have "map_of errs' field = map_of errs1 field"
      using forEachField_other by blast
    ultimately show ?thesis
      using True c Cons.prems(4)
      by (simp add: errs1_def map_of_setProperty_same split: option.splits)
  next
    case False
    with Cons.prems(2) fr have "(field, rule) \<in> set rules" by auto
    from Cons.IH [OF dist this run Cons.prems(4)] False show ?thesis
      by (simp add: errs1_def map_of_setProperty_other split: option.splits sum.splits)
  qed
qed

lemma validateForm_lookup:
  assumes "distinct (map fst rules)" and "(field, rule) \<in> set rules"
    and "field \<noteq> ''__proto__''"
  shows "\<exists>res. validateForm data rules = Inr res \<and>
     map_of (errors res) field =
       (case checkField data field rule of Inr (Some msg) \<Rightarrow> Some msg | _ \<Rightarrow> None)"
proof -
  obtain errs where run: "forEachField data rules [] = Inr errs"
    using forEachField_keys [of data rules "[]"] by blast
  from forEachField_lookup [OF assms(1,2) run assms(3)] run show ?thesis
    by (simp add: validateForm_def split: sum.splits option.splits)
qed

lemma validateForm_isValid_iff:
  "validateForm data rules = Inr res \<Longrightarrow> isValid res \<longleftrightarrow> errors res = []"
  by (auto simp: validateForm_def split: sum.splits)

text \<open>Nothing is ever recorded under \<open>__proto__\<close>.\<close>

lemma forEachField_proto:
  "forEachField data rules errs = Inr errs' \<Longrightarrow>
   map_of errs' ''__proto__'' = map_of errs ''__proto__''"
proof (induction rules arbitrary: errs)
  case Nil
  then show ?case by simp
next
  case (Cons fr rules)
  obtain f r where fr: "fr = (f, r)" by (cases fr)
  obtain c where c: "checkField data f r = Inr c"
    using checkField_returns by blast
  define errs1 where "errs1 = (case c of None \<Rightarrow> errs | Some msg \<Rightarrow> setProperty f msg errs)"
  from Cons.prems fr c have run: "forEachField data rules errs1 = Inr errs'"
    by (simp add: errs1_def split: option.splits)
  have "map_of errs1 ''__proto__'' = map_of errs ''__proto__''"
    by (cases c) (simp_all add: errs1_def setProperty_def update_conv')
  with Cons.IH [OF run] show ?case by simp
qed


lemmas check_defs = validateForm_def checkField_def get_field_def objectPrototype_def
  nativeFunction_def setProperty_def otherwise_def with_string_def
  requiredCheck_def minLengthCheck_def maxLengthCheck_def patternCheck_def numberCheck_def
  customCheck_def structuralChecks_def isNaN_def num_gt_def Let_def

subsection \<open>The result of \<open>validateForm\<close>\<close>

text \<open>
  Claim C1. For every record and every rule set, \<open>validateForm\<close> returns a result (it does
  not raise); the keys of its errors map are field names of the rule set, and \<open>isValid\<close> is
  true if and only if the errors map is empty.
\<close>

theorem validateForm_errors_within_rules:
  "\<exists>res. validateForm data rules = Inr res \<and>
     fst ` set (errors res) \<subseteq> fst ` set rules \<and>
     (isValid res \<longleftrightarrow> errors res = [])"
  using forEachField_keys [of data rules "[]"] by (auto simp: validateForm_def)

theorem validateForm_errors_within_rules_witness:
  "\<exists>res. validateForm [''name'' \<mapsto> Str ''''] [(''name'', requiredRule)] = Inr res \<and>
     fst ` set (errors res) \<subseteq> fst ` set [(''name'', requiredRule)] \<and>
     (isValid res \<longleftrightarrow> errors res = [])"
  using validateForm_errors_within_rules
    [of "[''name'' \<mapsto> Str '''']" "[(''name'', requiredRule)]"] .

subsection \<open>The number check\<close>

text \<open>
  Claim C4. With the rule \<^verbatim>\<open>{type: "number", min: 1, max: 50000}\<close> on a field, the value
  \<open>"0"\<close> gives the error \<open><field> must be at least 1\<close>, the value \<open>"50001"\<close> gives
  \<open><field> cannot exceed 50000\<close>, and the value \<open>"abc"\<close> gives
  \<open><field> must be a valid number\<close>. The field is any that an object can record an
  error under, that is, any name but \<open>__proto__\<close>.
\<close>

theorem number_rule_messages:
  assumes "field \<noteq> ''__proto__''"
  shows "validateForm [field \<mapsto> Str ''0''] [(field, capacityBounds)] =
     Inr \<lparr>isValid = False, errors = [(field, field @ '' must be at least 1'')]\<rparr> \<and>
   validateForm [field \<mapsto> Str ''50001''] [(field, capacityBounds)] =
     Inr \<lparr>isValid = False, errors = [(field, field @ '' cannot exceed 50000'')]\<rparr> \<and>
   validateForm [field \<mapsto> Str ''abc''] [(field, capacityBounds)] =
     Inr \<lparr>isValid = False, errors = [(field, field @ '' must be a valid number'')]\<rparr>"
  using assms
  by (simp add: check_defs capacityBounds_def emptyRule_def Number_0 Number_50001 Number_abc
        pos_toString_1 pos_toString_50000)

theorem number_rule_messages_witness:
  "validateForm [''capacityKg'' \<mapsto> Str ''0''] [(''capacityKg'', capacityBounds)] =
     Inr \<lparr>isValid = False, errors = [(''capacityKg'', ''capacityKg must be at least 1'')]\<rparr> \<and>
   validateForm [''capacityKg'' \<mapsto> Str ''50001''] [(''capacityKg'', capacityBounds)] =
     Inr \<lparr>isValid = False, errors = [(''capacityKg'', ''capacityKg cannot exceed 50000'')]\<rparr> \<and>
   validateForm [''capacityKg'' \<mapsto> Str ''abc''] [(''capacityKg'', capacityBounds)] =
     Inr \<lparr>isValid = False,
          errors = [(''capacityKg'', ''capacityKg must be a valid number'')]\<rparr>"
  using number_rule_messages [of "''capacityKg''"] by simp

text \<open>
  Under the name \<open>__proto__\<close> the same check fails and its message is assigned, but the
  errors object records nothing.
\<close>

lemma number_rule_proto:
  "checkField [''__proto__'' \<mapsto> Str ''0''] ''__proto__'' capacityBounds =
     Inr (Some ''__proto__ must be at least 1'') \<and>
   validateForm [''__proto__'' \<mapsto> Str ''0''] [(''__proto__'', capacityBounds)] =
     Inr \<lparr>isValid = True, errors = []\<rparr>"
  by (simp add: check_defs capacityBounds_def emptyRule_def Number_0 pos_toString_1)

subsection \<open>The two copies of the engine\<close>

lemma otherwise_assoc: "otherwise (otherwise a b) c = otherwise a (otherwise b c)"
  by (simp add: otherwise_def split: sum.splits option.splits)

lemma checkField_standalone_eq: "checkField_standalone data field rule = checkField data field rule"
  unfolding checkField_standalone_def checkField_def structuralChecks_def otherwise_assoc
  by (rule refl)

lemma forEachField_standalone_eq:
  "forEachField_standalone data rules errs = forEachField data rules errs"
  by (induction rules arbitrary: errs)
     (auto simp: checkField_standalone_eq split: sum.splits option.splits)

text \<open>
  Claim C5. The standalone \<open>validateForm\<close> and the one of the helpers module return the
  same result for every record and rule set.
\<close>

theorem validateForm_copies_agree:
  "validateForm_standalone data rules = validateForm data rules"
  by (simp add: validateForm_standalone_def validateForm_def forEachField_standalone_eq)


subsection \<open>The required check\<close>

lemma checkField_required:
  assumes "required rule"
  shows "checkField data field rule =
     (if \<not> truthy (get_field data field) \<or>
         (case toString_js (get_field data field) of Inr s \<Rightarrow> trim_js s = [] | Inl e \<Rightarrow> False)
      then Inr (Some (field @ '' is required''))
      else otherwise (structuralChecks field rule (get_field data field))
             (Inr (customCheck rule (get_field data field) data)))"
proof (cases "truthy (get_field data field)")
  case True
  then obtain s where "toString_js (get_field data field) = Inr s"
    using toString_truthy by blast
  with True assms show ?thesis
    by (simp add: checkField_def Let_def requiredCheck_def with_string_def otherwise_def)
next
  case False
  with assms show ?thesis
    by (simp add: checkField_def Let_def requiredCheck_def otherwise_def)
qed

text \<open>
  Claim C3, as amended. For a field, of a name other than \<open>__proto__\<close>, whose rule marks it
  required, the required check reports \<open><field> is required\<close> exactly when the value that
  \<open>data[field]\<close> reads is falsy (\<open>undefined\<close>, \<open>null\<close>, the empty string, but also the
  number 0, NaN and \<open>false\<close>) or its string form trims to the empty string. The value
  read is the record's own property or, when it has none of that name, the one
  inherited from \<open>Object.prototype\<close>, so a missing \<open>constructor\<close> or \<open>toString\<close> is not
  read as absent. In every other case the required check reports nothing, and the field's
  entry is what the later checks report.
\<close>

theorem required_reported_when_falsy_or_blank:
  assumes "distinct (map fst rules)" and "(field, rule) \<in> set rules" and "required rule"
    and "field \<noteq> ''__proto__''"
  shows "\<exists>res. validateForm data rules = Inr res \<and>
     map_of (errors res) field =
       (if \<not> truthy (get_field data field) \<or>
           (case toString_js (get_field data field) of
              Inr s \<Rightarrow> trim_js s = [] | Inl e \<Rightarrow> False)
        then Some (field @ '' is required'')
        else (case otherwise (structuralChecks field rule (get_field data field))
                     (Inr (customCheck rule (get_field data field) data)) of
                Inr r \<Rightarrow> r | Inl e \<Rightarrow> None))"
proof -
  from validateForm_lookup [OF assms(1,2,4)] obtain res where
    res: "validateForm data rules = Inr res" and
    look: "map_of (errors res) field =
       (case checkField data field rule of Inr (Some msg) \<Rightarrow> Some msg | _ \<Rightarrow> None)"
    by blast
  from look show ?thesis
    unfolding checkField_required [OF assms(3)] using res
    by (auto split: sum.splits option.splits if_splits)
qed

theorem required_reported_when_falsy_or_blank_witness:
  "\<exists>res. validateForm [''name'' \<mapsto> Str ''  ''] [(''name'', requiredRule)] = Inr res \<and>
     map_of (errors res) ''name'' = Some ''name is required''"
  using required_reported_when_falsy_or_blank
    [of "[(''name'', requiredRule)]" "''name''" requiredRule "[''name'' \<mapsto> Str ''  '']"]
  by (simp add: requiredRule_def emptyRule_def get_field_def trim_js_def is_ws_def)

text \<open>
  Two records without the field show what the hypotheses are for: the inherited
  \<open>constructor\<close> is a function, so the field is not reported; and an empty \<open>__proto__\<close>
  fails the check, but the errors object records nothing under that name.
\<close>

lemma required_inherited_value:
  "get_field Map.empty ''constructor'' = Obj ''function Object() { [native code] }'' \<and>
   validateForm Map.empty [(''constructor'', requiredRule)] =
     Inr \<lparr>isValid = True, errors = []\<rparr>"
  by (simp add: check_defs requiredRule_def emptyRule_def trim_js_def is_ws_def)

lemma required_proto_not_recorded:
  "checkField [''__proto__'' \<mapsto> Str ''''] ''__proto__'' requiredRule =
     Inr (Some ''__proto__ is required'') \<and>
   validateForm [''__proto__'' \<mapsto> Str ''''] [(''__proto__'', requiredRule)] =
     Inr \<lparr>isValid = True, errors = []\<rparr>"
  by (simp add: check_defs requiredRule_def emptyRule_def)

text \<open>
  The claim as stated fails on the number 0: it is present and its string form \<open>"0"\<close>
  does not trim to the empty string, yet the field is reported required.
\<close>

theorem required_zero_counterexample:
  "toString_js (Num (Fin 0)) = Inr ''0'' \<and> trim_js ''0'' = ''0'' \<and>
   validateForm [''tyres'' \<mapsto> Num (Fin 0)] [(''tyres'', requiredRule)] =
     Inr \<lparr>isValid = False, errors = [(''tyres'', ''tyres is required'')]\<rparr>"
  by (simp add: check_defs requiredRule_def emptyRule_def trim_js_def is_ws_def)

subsection \<open>The custom check\<close>

text \<open>
  Claim C2, as amended. For a field, of a name other than \<open>__proto__\<close>, whose rule has a
  custom function that returns a non-empty message on the value that \<open>data[field]\<close> reads
  (the record's own property, or else the one inherited from \<open>Object.prototype\<close>): the
  custom check is the last one, and it is reached only when the required check passed,
  the field was not skipped as empty and optional, and no length, pattern or number
  check failed; its message is then the field's error. An error that an earlier check
  recorded is the field's error, and the custom function does not replace it: the
  callback returns as soon as an error is recorded.
\<close>

theorem custom_message_only_after_other_checks:
  assumes "distinct (map fst rules)" and "(field, rule) \<in> set rules"
    and "validate rule = Some f" and "f (get_field data field) data = Some msg"
    and "msg \<noteq> []" and "field \<noteq> ''__proto__''"
  shows "\<exists>res. validateForm data rules = Inr res \<and>
     map_of (errors res) field =
       (case requiredCheck field rule (get_field data field) of
          Inr (Some e) \<Rightarrow> Some e
        | _ \<Rightarrow>
          if \<not> truthy (get_field data field) \<and> \<not> required rule then None
          else (case structuralChecks field rule (get_field data field) of
                  Inr (Some e) \<Rightarrow> Some e
                | _ \<Rightarrow> Some msg))"
proof -
  from validateForm_lookup [OF assms(1,2,6)] obtain res where
    res: "validateForm data rules = Inr res" and
    look: "map_of (errors res) field =
       (case checkField data field rule of Inr (Some msg) \<Rightarrow> Some msg | _ \<Rightarrow> None)"
    by blast
  obtain r where r: "requiredCheck field rule (get_field data field) = Inr r"
    using requiredCheck_returns by blast
  have custom: "customCheck rule (get_field data field) data = Some msg"
    using assms(3-5) by (simp add: customCheck_def)
  show ?thesis
  proof (cases "truthy (get_field data field)")
    case True
    then obtain c where "structuralChecks field rule (get_field data field) = Inr c"
      using structuralChecks_returns by blast
    with True r custom look res show ?thesis
      by (auto simp: checkField_def Let_def otherwise_def split: option.splits)
  next
    case False
    with r custom look res show ?thesis
      by (auto simp: checkField_def Let_def otherwise_def requiredCheck_def
            split: option.splits if_splits)
  qed
qed

theorem custom_message_only_after_other_checks_witness:
  "\<exists>res. validateForm [''startTime'' \<mapsto> Str ''x'']
            [(''startTime'', emptyRule\<lparr>validate := Some alwaysCustom\<rparr>)] = Inr res \<and>
     map_of (errors res) ''startTime'' = Some ''custom''"
  using custom_message_only_after_other_checks
    [of "[(''startTime'', emptyRule\<lparr>validate := Some alwaysCustom\<rparr>)]" "''startTime''"
        "emptyRule\<lparr>validate := Some alwaysCustom\<rparr>" alwaysCustom
        "[''startTime'' \<mapsto> Str ''x'']" "''custom''"]
  by (simp add: check_defs emptyRule_def alwaysCustom_def)

text \<open>
  On a record without the field the custom function is reached under an inherited name,
  since the value read is a function, and is not reached under an ordinary one.
\<close>

lemma custom_on_inherited_value:
  "validateForm Map.empty [(''toString'', emptyRule\<lparr>validate := Some alwaysCustom\<rparr>)] =
     Inr \<lparr>isValid = False, errors = [(''toString'', ''custom'')]\<rparr> \<and>
   validateForm Map.empty [(''startTime'', emptyRule\<lparr>validate := Some alwaysCustom\<rparr>)] =
     Inr \<lparr>isValid = True, errors = []\<rparr>"
  by (simp add: check_defs emptyRule_def alwaysCustom_def)

text \<open>
  The claim as stated fails on a required field that is empty: the custom function
  returns a message, and the error reported is that of the required check.
\<close>

theorem custom_not_reached_counterexample:
  "validate requiredWithCustom = Some alwaysCustom \<and>
   alwaysCustom (get_field Map.empty ''startTime'') Map.empty = Some ''custom'' \<and>
   validateForm Map.empty [(''startTime'', requiredWithCustom)] =
     Inr \<lparr>isValid = False, errors = [(''startTime'', ''startTime is required'')]\<rparr>"
  by (simp add: check_defs requiredWithCustom_def emptyRule_def alwaysCustom_def)


section \<open>Properties of the response interceptor\<close>

text \<open>
  Claim C9, as amended. For a rejected response the message reported is chosen by the
  status. For 401, 403, 404, 422, 429 and 500 it is the generic message of the status
  whatever the body carries: the server's message does not override it. For 400, for 409
  and for every status outside the list, and a body that is not \<open>null\<close> or
  \<open>undefined\<close>, it is the server's message when the body carries a non-empty one, and
  otherwise the generic message: \<open>Invalid request data\<close>, \<open>Conflict occurred\<close> and
  \<open>An error occurred\<close>.
\<close>

theorem status_messages:
  "responseErrorMessage (Response 401 d) = Inr ''Authentication required'' \<and>
   responseErrorMessage (Response 403 d) = Inr ''Access denied'' \<and>
   responseErrorMessage (Response 404 d) = Inr ''Resource not found'' \<and>
   responseErrorMessage (Response 422 d) = Inr ''Validation failed'' \<and>
   responseErrorMessage (Response 429 d) = Inr ''Too many requests. Please try again later'' \<and>
   responseErrorMessage (Response 500 d) = Inr ''Internal server error'' \<and>
   responseErrorMessage (Response 400 (Data m)) =
     Inr (case m of None \<Rightarrow> ''Invalid request data''
          | Some t \<Rightarrow> if t \<noteq> [] then t else ''Invalid request data'') \<and>
   responseErrorMessage (Response 409 (Data m)) =
     Inr (case m of None \<Rightarrow> ''Conflict occurred''
          | Some t \<Rightarrow> if t \<noteq> [] then t else ''Conflict occurred'') \<and>
   (status \<notin> set [400, 401, 403, 404, 409, 422, 429, 500] \<longrightarrow>
      responseErrorMessage (Response status (Data m)) =
        Inr (case m of None \<Rightarrow> ''An error occurred''
             | Some t \<Rightarrow> if t \<noteq> [] then t else ''An error occurred''))"
  by (simp add: responseErrorMessage_def messageOr_def split: option.splits)

theorem status_messages_witness:
  "responseErrorMessage (Response 503 (Data (Some ''Service unavailable''))) =
     Inr ''Service unavailable'' \<and>
   responseErrorMessage (Response 409 (Data (Some ''Vehicle is already booked''))) =
     Inr ''Vehicle is already booked'' \<and>
   responseErrorMessage (Response 400 (Data (Some ''Vehicle is already booked''))) =
     Inr ''Vehicle is already booked'' \<and>
   responseErrorMessage (Response 401 (Data (Some ''Service unavailable''))) =
     Inr ''Authentication required''"
  using status_messages
    [of "Data (Some ''Service unavailable'')" "Some ''Vehicle is already booked''" 503]
    status_messages [of "Data None" "Some ''Service unavailable''" 503]
  by simp

text \<open>
  The claim as stated fails on a 404 whose body carries a message: the generic message is
  reported.
\<close>

theorem status_404_counterexample:
  "responseErrorMessage (Response 404 (Data (Some ''Vehicle not found''))) =
     Inr ''Resource not found''"
  by (simp add: responseErrorMessage_def)

text \<open>
  With a body that is \<open>null\<close> or \<open>undefined\<close>, the branches that read \<open>data.error\<close>
  raise instead of reporting a message.
\<close>

lemma status_messages_without_body:
  "responseErrorMessage (Response 400 NoData) = Inl TypeError \<and>
   responseErrorMessage (Response 409 NoData) = Inl TypeError \<and>
   responseErrorMessage (Response 503 NoData) = Inl TypeError"
  by (simp add: responseErrorMessage_def messageOr_def)


section \<open>Properties of the add-vehicle form\<close>

lemma validationRules_distinct: "distinct (map fst validationRules)"
  by (simp add: validationRules_def)

text \<open>
  Claim C6. A submit of the add-vehicle form whose form state fails validation leaves
  \<open>isSubmitting\<close> as it was (the form stays idle), puts the errors of the validation in
  the error map, with the error of every failing field in it, shows the one toast
  \<open>Please fix the errors in the form\<close> and sends no request.
\<close>

theorem invalid_submit_stays_idle:
  assumes "validateForm (vehicleFormData (formData s)) validationRules = Inr v"
    and "\<not> isValid v"
  shows "\<exists>s'. handleSubmit s = Inr s' \<and>
     isSubmitting s' = isSubmitting s \<and>
     submissionState s' = submissionState s \<and>
     requests s' = requests s \<and>
     toasts s' = toasts s @ [ToastError ''Please fix the errors in the form''] \<and>
     formErrors s' = errors v \<and>
     formErrors s' \<noteq> [] \<and>
     list_all (\<lambda>(field, rule).
         map_of (formErrors s') field =
           (case checkField (vehicleFormData (formData s)) field rule of
              Inr (Some msg) \<Rightarrow> Some msg | _ \<Rightarrow> None))
       validationRules"
proof -
  let ?s' = "s\<lparr>formErrors := errors v,
                toasts := toasts s @ [ToastError ''Please fix the errors in the form'']\<rparr>"
  have run: "handleSubmit s = Inr ?s'"
    using assms by (simp add: handleSubmit_def)
  have nonempty: "errors v \<noteq> []"
    using validateForm_isValid_iff [OF assms(1)] assms(2) by simp
  have each: "map_of (errors v) field =
      (case checkField (vehicleFormData (formData s)) field rule of
         Inr (Some msg) \<Rightarrow> Some msg | _ \<Rightarrow> None)"
    if "(field, rule) \<in> set validationRules" for field rule
  proof -
    from that have "field \<noteq> ''__proto__''" by (auto simp: validationRules_def)
    from validateForm_lookup [OF validationRules_distinct that this,
        of "vehicleFormData (formData s)"] assms(1)
    show ?thesis by simp
  qed
  have "list_all (\<lambda>(field, rule).
         map_of (errors v) field =
           (case checkField (vehicleFormData (formData s)) field rule of
              Inr (Some msg) \<Rightarrow> Some msg | _ \<Rightarrow> None))
       validationRules"
    unfolding list_all_iff using each by blast
  with run nonempty show ?thesis
    by (simp add: submissionState_def)
qed

theorem invalid_submit_stays_idle_witness:
  "validateForm (vehicleFormData (formData invalidVehicle)) validationRules =
     Inr \<lparr>isValid = False,
          errors = [(''name'', ''name is required''),
                    (''capacityKg'', ''capacityKg cannot exceed 50000''),
                    (''tyres'', ''tyres must be at least 2'')]\<rparr> \<and>
   (\<exists>s'. handleSubmit invalidVehicle = Inr s' \<and>
      isSubmitting s' = False \<and> requests s' = [] \<and>
      toasts s' = [ToastError ''Please fix the errors in the form''] \<and>
      formErrors s' = [(''name'', ''name is required''),
                       (''capacityKg'', ''capacityKg cannot exceed 50000''),
                       (''tyres'', ''tyres must be at least 2'')])"
proof -
  have v: "validateForm (vehicleFormData (formData invalidVehicle)) validationRules =
     Inr \<lparr>isValid = False,
          errors = [(''name'', ''name is required''),
                    (''capacityKg'', ''capacityKg cannot exceed 50000''),
                    (''tyres'', ''tyres must be at least 2'')]\<rparr>"
    by (simp add: check_defs emptyRule_def validationRules_def vehicleFormData_def
          invalidVehicle_def str_num_defs trim_js_def is_ws_def
          pos_toString_50000 pos_toString_2)
  from invalid_submit_stays_idle [OF v] v show ?thesis
    by (auto simp: invalidVehicle_def)
qed

text \<open>
  Claim C7. A submit of a valid add-vehicle form from the idle state sends one request and
  enters the submitting state; a success response then brings the succeeded state and
  schedules the reset with a delay of 2000 ms; when that callback runs the form is idle
  again and its three fields are empty.
\<close>

theorem valid_submit_cycle:
  assumes "validateForm (vehicleFormData (formData s)) validationRules = Inr v"
    and "isValid v" and "submissionState s = Idle"
  shows "\<exists>s1. handleSubmit s = Inr s1 \<and>
     submissionState s1 = Submitting \<and>
     requests s1 = requests s @
       [\<lparr>vd_name = trim_js (name (formData s)),
         vd_capacityKg = parseInt (capacityKg (formData s)),
         vd_tyres = parseInt (tyres (formData s))\<rparr>] \<and>
     submissionState (handleSubmit_settled (Fulfilled True) s1) = Succeeded \<and>
     timers (handleSubmit_settled (Fulfilled True) s1) = timers s @ [2000] \<and>
     requests (handleSubmit_settled (Fulfilled True) s1) = requests s1 \<and>
     submissionState (resetTimeout (handleSubmit_settled (Fulfilled True) s1)) = Idle \<and>
     formData (resetTimeout (handleSubmit_settled (Fulfilled True) s1)) =
       \<lparr>name = [], capacityKg = [], tyres = []\<rparr>"
  using assms
  by (simp add: handleSubmit_def handleSubmit_settled_def resetTimeout_def
        submissionState_def emptyVehicleForm_def split: if_splits)

theorem valid_submit_cycle_witness:
  "submissionState validVehicle = Idle \<and>
   validateForm (vehicleFormData (formData validVehicle)) validationRules =
     Inr \<lparr>isValid = True, errors = []\<rparr> \<and>
   (\<exists>s1. handleSubmit validVehicle = Inr s1 \<and>
      submissionState s1 = Submitting \<and>
      submissionState (handleSubmit_settled (Fulfilled True) s1) = Succeeded \<and>
      timers (handleSubmit_settled (Fulfilled True) s1) = [2000] \<and>
      submissionState (resetTimeout (handleSubmit_settled (Fulfilled True) s1)) = Idle \<and>
      formData (resetTimeout (handleSubmit_settled (Fulfilled True) s1)) =
        \<lparr>name = [], capacityKg = [], tyres = []\<rparr>)"
proof -
  have idle: "submissionState validVehicle = Idle"
    by (simp add: submissionState_def validVehicle_def)
  have v: "validateForm (vehicleFormData (formData validVehicle)) validationRules =
     Inr \<lparr>isValid = True, errors = []\<rparr>"
    by (simp add: check_defs emptyRule_def validationRules_def vehicleFormData_def
          validVehicle_def str_num_defs trim_js_def is_ws_def)
  from valid_submit_cycle [OF v _ idle] v idle show ?thesis
    by (auto simp: validVehicle_def)
qed

section \<open>Properties of the search form\<close>

text \<open>
  Claim C8, as amended. A submit of the search form whose four fields pass the validation
  of the rule set, and whose two pincodes are equal, is rejected after that validation:
  the error \<open>Destination must be different from pickup location\<close> is set on
  \<open>toPincode\<close>, an error toast is shown, and no request is sent.
\<close>

theorem same_pincode_rejected:
  assumes "validateForm (searchFormData (searchData s)) (searchValidationRules d) = Inr v"
    and "isValid v" and "fromPincode (searchData s) = toPincode (searchData s)"
  shows "\<exists>s'. handleSearch d s = Inr s' \<and>
     searchErrors s' =
       [(''toPincode'', ''Destination must be different from pickup location'')] \<and>
     searchToasts s' = searchToasts s @
       [ToastError ''Pickup and destination locations must be different''] \<and>
     searchRequests s' = searchRequests s \<and>
     isSearching s' = isSearching s"
  using assms by (simp add: handleSearch_def)

theorem same_pincode_rejected_witness:
  "validateForm (searchFormData (searchData samePincodeSearch))
     (searchValidationRules exampleDates) = Inr \<lparr>isValid = True, errors = []\<rparr> \<and>
   fromPincode (searchData samePincodeSearch) = toPincode (searchData samePincodeSearch) \<and>
   (\<exists>s'. handleSearch exampleDates samePincodeSearch = Inr s' \<and>
      searchErrors s' =
        [(''toPincode'', ''Destination must be different from pickup location'')] \<and>
      searchToasts s' = [ToastError ''Pickup and destination locations must be different''] \<and>
      searchRequests s' = [] \<and>
      isSearching s' = False)"
proof -
  have same: "fromPincode (searchData samePincodeSearch) =
      toPincode (searchData samePincodeSearch)"
    by (simp add: samePincodeSearch_def)
  have v: "validateForm (searchFormData (searchData samePincodeSearch))
     (searchValidationRules exampleDates) = Inr \<lparr>isValid = True, errors = []\<rparr>"
    by (simp add: check_defs emptyRule_def searchValidationRules_def searchFormData_def
          samePincodeSearch_def exampleDates_def laterDate_def startTimeValidate_def
          pincodePattern_def str_num_defs trim_js_def is_ws_def)
  from same_pincode_rejected [OF v _ same] v same show ?thesis
    by (auto simp: samePincodeSearch_def)
qed

text \<open>
  The claim as stated asks only that the two pincodes pass the validation. When another
  field fails it, the handler returns with the errors of the validation, and the two equal
  pincodes get no error: here the capacity is empty.
\<close>

theorem same_pincode_other_field_counterexample:
  "pincodePattern (fromPincode (searchData noCapacitySearch)) \<and>
   fromPincode (searchData noCapacitySearch) = toPincode (searchData noCapacitySearch) \<and>
   handleSearch exampleDates noCapacitySearch =
     Inr (noCapacitySearch
            \<lparr>searchErrors := [(''capacityRequired'', ''capacityRequired is required'')],
             searchToasts := [ToastError ''Please fix the errors in the search form'']\<rparr>)"
  by (simp add: handleSearch_def check_defs emptyRule_def searchValidationRules_def
        searchFormData_def noCapacitySearch_def samePincodeSearch_def exampleDates_def
        laterDate_def startTimeValidate_def pincodePattern_def is_digit_def radix_digit_def
        digit_of_def trim_js_def is_ws_def)


section \<open>Properties of the ride duration\<close>

subsection \<open>What \<open>parseInt\<close> returns\<close>

lemma round_pos_of_int:
  assumes "0 < n"
  shows "\<exists>m. round_pos (of_int n) = of_int m"
proof -
  define a :: rat where "a = of_int n"
  define e where "e = bin_exp a"
  have apos: "0 < a" using assms by (simp add: a_def)
  from bin_exp_bounds [OF apos] have hi: "a < pow2 (e + 1)" by (simp add: e_def)
  show ?thesis
  proof (cases "52 \<le> e")
    case True
    then have p: "max (e - 52) (- 1074) = e - 52" by simp
    have "round_pos a = of_int (round_half_even (a / pow2 (e - 52))) * pow2 (e - 52)"
      by (simp add: round_pos_def Let_def p flip: e_def)
    also have "\<dots> = of_int (round_half_even (a / pow2 (e - 52)) * 2 ^ nat (e - 52))"
      using True by (simp add: pow2_nat)
    finally show ?thesis unfolding a_def by blast
  next
    case False
    then have "e + 1 \<le> 52" by simp
    then have "pow2 (e + 1) \<le> pow2 52" by (rule pow2_mono)
    with hi have "a < pow2 52" by simp
    then have "(of_int n :: rat) < of_int (2 ^ 52)" by (simp add: a_def pow2_def)
    then have "n < 2 ^ 52" by (simp only: of_int_less_iff)
    then have "n < 2 ^ 53" by simp
    from round_pos_small_int [OF assms this] show ?thesis by blast
  qed
qed

lemma round_double_of_int_cases:
  "round_double (of_int n) = PInf \<or> round_double (of_int n) = NInf \<or>
   (\<exists>m. round_double (of_int n) = Fin (of_int m))"
proof -
  consider "n = 0" | "0 < n" | "n < 0" by linarith
  then show ?thesis
  proof cases
    case 1
    have "round_double (of_int n) = Fin (of_int 0)" using 1 by (simp add: round_double_def)
    then show ?thesis by blast
  next
    case 2
    from round_pos_of_int [OF 2] obtain m where "round_pos (of_int n) = of_int m" by blast
    with 2 show ?thesis by (auto simp: round_double_def Let_def)
  next
    case 3
    then have "0 < - n" by simp
    from round_pos_of_int [OF this] obtain m where "round_pos (of_int (- n)) = of_int m"
      by blast
    then have m: "round_pos (- of_int n) = of_int m" by simp
    have "round_double (of_int n) =
        (if pow2 1024 \<le> round_pos (- of_int n) then NInf
         else Fin (- round_pos (- of_int n)))"
      using 3 by (simp add: round_double_def Let_def)
    also have "- round_pos (- of_int n) = of_int (- m)" by (simp add: m)
    finally show ?thesis
      by (cases "pow2 1024 \<le> round_pos (- of_int n)") (auto intro: exI [of _ "- m"])
  qed
qed

lemma parseInt_cases:
  "parseInt s = NaN \<or> parseInt s = PInf \<or> parseInt s = NInf \<or>
   (\<exists>m. parseInt s = Fin (of_int m))"
proof (cases "parseInt s = NaN")
  case True
  then show ?thesis by simp
next
  case False
  then obtain n where "parseInt s = round_double (of_int n)"
    by (auto simp: parseInt_def Let_def split: if_splits)
  with round_double_of_int_cases [of n] show ?thesis by auto
qed

subsection \<open>The duration when nothing overflows\<close>

text \<open>
  When both pincodes parse to finite numbers whose difference is finite, the duration is
  an integer between 1 and 23, the larger of the difference modulo 24 and 1; when one
  of them does not parse, it is 2.
\<close>

lemma calculateRideDuration_finite:
  assumes "parseInt f = Fin a" and "parseInt t = Fin b" and "num_sub (Fin a) (Fin b) = Fin c"
  shows "\<exists>m. c = of_int m \<and>
     calculateRideDuration f t = Fin (of_int (max (\<bar>m\<bar> mod 24) 1)) \<and>
     1 \<le> max (\<bar>m\<bar> mod 24) 1 \<and> max (\<bar>m\<bar> mod 24) 1 \<le> 23"
proof -
  from parseInt_cases [of f] assms(1) obtain a' where a: "a = of_int a'" by auto
  from parseInt_cases [of t] assms(2) obtain b' where b: "b = of_int b'" by auto
  have "a - b = of_int (a' - b')" by (simp add: a b)
  with assms(3) have "round_double (of_int (a' - b')) = Fin c" by simp
  with round_double_of_int_cases [of "a' - b'"] obtain m where c: "c = of_int m" by auto
  have "\<lfloor>(of_int \<bar>m\<bar> :: rat) / of_int 24\<rfloor> = \<bar>m\<bar> div 24"
    by (rule floor_divide_of_int_eq)
  then have fl: "\<lfloor>\<bar>c\<bar> / 24\<rfloor> = \<bar>m\<bar> div 24" by (simp add: c)
  have "(of_int (\<bar>m\<bar> mod 24) :: rat) = of_int (\<bar>m\<bar> - 24 * (\<bar>m\<bar> div 24))"
    by (simp only: minus_mult_div_eq_mod)
  also have "\<dots> = \<bar>c\<bar> - 24 * of_int (\<bar>m\<bar> div 24)" by (simp add: c)
  finally have "\<bar>c\<bar> - 24 * of_int \<lfloor>\<bar>c\<bar> / 24\<rfloor> = of_int (\<bar>m\<bar> mod 24)"
    by (simp only: fl)
  then have rem: "num_rem (Fin \<bar>c\<bar>) (Fin 24) = Fin (of_int (\<bar>m\<bar> mod 24))"
    by simp
  have range: "0 \<le> \<bar>m\<bar> mod 24" "\<bar>m\<bar> mod 24 < 24" by simp_all
  have mx: "Math_max (Fin (of_int (\<bar>m\<bar> mod 24))) (Fin 1) = Fin (of_int (max (\<bar>m\<bar> mod 24) 1))"
    by (simp add: Math_max_def max_def)
  have "calculateRideDuration f t = Fin (of_int (max (\<bar>m\<bar> mod 24) 1))"
    using assms rem mx by (simp add: calculateRideDuration_def isNaN_def Let_def)
  with c range show ?thesis by auto
qed

lemma calculateRideDuration_unparsed:
  "parseInt f = NaN \<or> parseInt t = NaN \<Longrightarrow> calculateRideDuration f t = Fin 2"
  by (auto simp: calculateRideDuration_def isNaN_def Let_def)

subsection \<open>Inputs of the length of a pincode\<close>

lemma radix_digit_less: "radix_digit r c = Some d \<Longrightarrow> d < r"
  by (auto simp: radix_digit_def split: option.splits if_splits)

lemma foldl_digits_bounds:
  assumes "0 \<le> a" and "1 \<le> r"
  shows "0 \<le> foldl (\<lambda>a c. case radix_digit r c of None \<Rightarrow> a
                              | Some d \<Rightarrow> a * int r + int d) a s \<and>
         foldl (\<lambda>a c. case radix_digit r c of None \<Rightarrow> a
                        | Some d \<Rightarrow> a * int r + int d) a s < (a + 1) * int r ^ length s"
  using assms(1)
proof (induction s arbitrary: a)
  case Nil
  then show ?case by simp
next
  case (Cons c s)
  have rpos: "1 \<le> int r" using assms(2) by simp
  have pw: "0 < int r ^ length s" using rpos by simp
  show ?case
  proof (cases "radix_digit r c")
    case None
    have "(a + 1) * int r ^ length s \<le> (a + 1) * (int r * int r ^ length s)"
      using Cons.prems rpos pw by (simp add: mult_left_mono)
    with Cons.IH [OF Cons.prems] None show ?thesis by simp
  next
    case (Some d)
    then have "d < r" by (rule radix_digit_less)
    then have "a * int r + int d + 1 \<le> (a + 1) * int r" by (simp add: algebra_simps)
    then have "(a * int r + int d + 1) * int r ^ length s \<le> (a + 1) * int r * int r ^ length s"
      using pw by (simp add: mult_right_mono)
    moreover have "0 \<le> a * int r + int d" using Cons.prems by simp
    ultimately show ?thesis
      using Cons.IH [of "a * int r + int d"] Some by (simp add: mult.assoc)
  qed
qed

lemma digits_value_bounds:
  assumes "1 \<le> r"
  shows "0 \<le> digits_value r s \<and> digits_value r s < int r ^ length s"
  using foldl_digits_bounds [of 0 r s] assms by (simp add: digits_value_def)

text \<open>
  On at most six characters \<open>parseInt\<close> reads at most six digits, in radix 10 or 16: the
  integer is below \<open>16^6\<close> and is a binary64 value.
\<close>

lemma parseInt_short:
  assumes "length s \<le> 6"
  shows "parseInt s = NaN \<or> (\<exists>m. \<bar>m\<bar> < 2 ^ 24 \<and> parseInt s = Fin (of_int m))"
proof -
  define S where "S = trim_start s"
  define S1 where "S1 = (if S \<noteq> [] \<and> (hd S = CHR ''+'' \<or> hd S = CHR ''-'') then tl S else S)"
  define hex where "hex = (case S1 of z # x # _ \<Rightarrow> z = CHR ''0'' \<and> (x = CHR ''x'' \<or> x = CHR ''X'')
                 | _ \<Rightarrow> False)"
  define R :: nat where "R = (if hex then 16 else 10)"
  define S2 where "S2 = (if hex then drop 2 S1 else S1)"
  define Z where "Z = takeWhile (is_digit R) S2"
  define v where "v = digits_value R Z"
  have p: "parseInt s =
      (if Z = [] then NaN
       else round_double (of_int (if S \<noteq> [] \<and> hd S = CHR ''-'' then - v else v)))"
    unfolding parseInt_def Let_def S_def [symmetric] S1_def [symmetric] hex_def [symmetric]
      R_def [symmetric] S2_def [symmetric] Z_def [symmetric] v_def [symmetric]
    by (rule refl)
  have "length S \<le> length s" by (simp add: S_def trim_start_def length_dropWhile_le)
  moreover have "length S1 \<le> length S" by (simp add: S1_def)
  moreover have "length S2 \<le> length S1" by (simp add: S2_def)
  moreover have "length Z \<le> length S2" by (simp add: Z_def length_takeWhile_le)
  ultimately have len: "length Z \<le> 6" using assms by linarith
  have R: "1 \<le> R" "int R \<le> 16" by (simp_all add: R_def)
  from digits_value_bounds [OF R(1)] have v0: "0 \<le> v" and v1: "v < int R ^ length Z"
    by (simp_all add: v_def)
  have "int R ^ length Z \<le> 16 ^ length Z" using R by (simp add: power_mono)
  also have "\<dots> \<le> (16::int) ^ 6" using len by (intro power_increasing) simp_all
  finally have "v < 2 ^ 24" using v1 by simp
  with v0 have small: "\<bar>v\<bar> < 2 ^ 24" "\<bar>- v\<bar> < 2 ^ 24" by simp_all
  then have "\<bar>v\<bar> < 2 ^ 53" "\<bar>- v\<bar> < 2 ^ 53" by simp_all
  then have exact: "round_double (of_int v) = Fin (of_int v)"
      "round_double (of_int (- v)) = Fin (of_int (- v))"
    by (simp_all only: round_double_small_int)
  show ?thesis
  proof (cases "Z = []")
    case True
    with p show ?thesis by simp
  next
    case False
    show ?thesis
    proof (cases "S \<noteq> [] \<and> hd S = CHR ''-''")
      case True
      with p False exact have "parseInt s = Fin (of_int (- v))" by simp
      with small show ?thesis by blast
    next
      case False
      with p \<open>Z \<noteq> []\<close> exact have "parseInt s = Fin (of_int v)" by simp
      with small show ?thesis by blast
    qed
  qed
qed

text \<open>
  Claim C10. For every pair of pincode inputs, which the form delivers with at most six
  characters each, \<open>calculateRideDuration\<close> returns an integer between 1 and 23: it is 2
  when one of the inputs does not parse, and otherwise the larger of 1 and the absolute
  difference of the two parsed numbers modulo 24.
\<close>

theorem calculateRideDuration_range:
  assumes "length fromPin \<le> 6" and "length toPin \<le> 6"
  shows "\<exists>k. calculateRideDuration fromPin toPin = Fin (of_int k) \<and>
     1 \<le> k \<and> k \<le> 23 \<and>
     (if parseInt fromPin = NaN \<or> parseInt toPin = NaN then k = 2
      else \<exists>a b. parseInt fromPin = Fin (of_int a) \<and>
                 parseInt toPin = Fin (of_int b) \<and>
                 k = max (\<bar>a - b\<bar> mod 24) 1)"
proof (cases "parseInt fromPin = NaN \<or> parseInt toPin = NaN")
  case True
  then have "calculateRideDuration fromPin toPin = Fin (of_int 2)"
    using calculateRideDuration_unparsed [of fromPin toPin] by simp
  with True show ?thesis by (intro exI [of _ 2]) simp
next
  case False
  with parseInt_short [OF assms(1)] parseInt_short [OF assms(2)] obtain a b where
    a: "\<bar>a\<bar> < 2 ^ 24" "parseInt fromPin = Fin (of_int a)" and
    b: "\<bar>b\<bar> < 2 ^ 24" "parseInt toPin = Fin (of_int b)"
    by auto
  have "\<bar>a - b\<bar> < 2 ^ 53" using a(1) b(1) by simp
  then have "round_double (of_int (a - b)) = Fin (of_int (a - b))"
    by (rule round_double_small_int)
  then have sub: "num_sub (Fin (of_int a)) (Fin (of_int b)) = Fin (of_int (a - b))"
    by simp
  from calculateRideDuration_finite [OF a(2) b(2) sub] obtain m where
    m: "(of_int (a - b) :: rat) = of_int m" and
    res: "calculateRideDuration fromPin toPin = Fin (of_int (max (\<bar>m\<bar> mod 24) 1))" and
    range: "1 \<le> max (\<bar>m\<bar> mod 24) 1" "max (\<bar>m\<bar> mod 24) 1 \<le> 23"
    by blast
  from m have "m = a - b" by (simp only: of_int_eq_iff)
  with res range False a(2) b(2) show ?thesis
    by (intro exI [of _ "max (\<bar>a - b\<bar> mod 24) 1"]) auto
qed

lemma parseInt_110001: "parseInt ''110001'' = Fin 110001"
  by (simp add: parseInt_def trim_start_def str_num_defs)

lemma parseInt_400001: "parseInt ''400001'' = Fin 400001"
  by (simp add: parseInt_def trim_start_def str_num_defs)

theorem calculateRideDuration_range_witness:
  "length ''110001'' \<le> 6 \<and> length ''400001'' \<le> 6 \<and>
   parseInt ''110001'' = Fin 110001 \<and> parseInt ''400001'' = Fin 400001 \<and>
   calculateRideDuration ''110001'' ''400001'' = Fin 8"
proof -
  from calculateRideDuration_range [of "''110001''" "''400001''"] obtain k where
    "calculateRideDuration ''110001'' ''400001'' = Fin (of_int k)" and
    "\<exists>a b. Fin 110001 = Fin (of_int a) \<and> Fin 400001 = Fin (of_int b) \<and>
       k = max (\<bar>a - b\<bar> mod 24) 1"
    by (auto simp: parseInt_110001 parseInt_400001)
  then show ?thesis
    by (auto simp: parseInt_110001 parseInt_400001)
qed

subsection \<open>A longer input that overflows\<close>

text \<open>
  The bound on the length is not idle. The function is exported, and on a string of 309
  digits, which the form cannot deliver, \<open>parseInt\<close> returns Infinity; this passes the
  \<open>isNaN\<close> guard, and the value returned is NaN.
\<close>

lemma digits_value_nines:
  "foldl (\<lambda>a c. case radix_digit 10 c of None \<Rightarrow> a | Some d \<Rightarrow> a * int 10 + int d) a
     (replicate n (CHR ''9'')) = (a + 1) * 10 ^ n - 1"
proof (induction n arbitrary: a)
  case 0
  show ?case by simp
next
  case (Suc n)
  have nine: "radix_digit 10 (CHR ''9'') = Some 9"
    by (simp add: radix_digit_def digit_of_def)
  show ?case by (simp add: nine Suc.IH algebra_simps)
qed

lemma parseInt_nines:
  "parseInt (CHR ''9'' # CHR ''9'' # replicate n (CHR ''9'')) =
     round_double (of_int (10 ^ (n + 2) - 1))"
proof -
  have dig: "is_digit 10 (CHR ''9'')"
    by (simp add: is_digit_def radix_digit_def digit_of_def)
  have ws: "\<not> is_ws (CHR ''9'')" by (simp add: is_ws_def)
  have "digits_value 10 (replicate (n + 2) (CHR ''9'')) = 10 ^ (n + 2) - 1"
    unfolding digits_value_def digits_value_nines by simp
  then have val: "digits_value 10 (CHR ''9'' # CHR ''9'' # replicate n (CHR ''9'')) =
      10 ^ (n + 2) - 1" by simp
  show ?thesis
    by (simp add: parseInt_def trim_start_def Let_def ws dig takeWhile_replicate val
          del: replicate_Suc)
qed

lemma parseInt_longPincode: "parseInt longPincode = PInf"
proof -
  have "(309::nat) = Suc (Suc 307)" by simp
  then have long: "longPincode = CHR ''9'' # CHR ''9'' # replicate 307 (CHR ''9'')"
    unfolding longPincode_def by (simp only: replicate_Suc)
  have "parseInt longPincode = round_double (of_int (10 ^ (307 + 2) - 1))"
    unfolding long by (rule parseInt_nines)
  moreover have "round_double (of_int (10 ^ (307 + 2) - 1)) = PInf"
    by (rule round_double_overflow) (simp add: pow2_def)
  ultimately show ?thesis by (simp only:)
qed

lemma calculateRideDuration_overflow: "calculateRideDuration longPincode ''110001'' = NaN"
  by (simp add: calculateRideDuration_def parseInt_longPincode parseInt_110001 isNaN_def
        Math_max_def)

end
